theory Spec2Isabelle
  imports Complex_Main "HOL-Library.Multiset"
begin

unbundle bit_operations_syntax

section \<open>Meeba Farm: genome codec, vitals, body factory and collision arithmetic\<close>

text \<open>
  The development embeds the simulation core of the repository: the seeded generator of
  \<^verbatim>\<open>utils/math.js\<close>, the two generations of \<^verbatim>\<open>meebas/vitals.js\<close>,
  \<^verbatim>\<open>meebas/spikes.js\<close> and \<^verbatim>\<open>meebas/genome.js\<close>, the body factory
  \<^verbatim>\<open>meebas/bodies.js\<close> and the collision helpers of the first generation.

  Conventions.
  \<^item> A JavaScript number is a \<open>real\<close> (or an \<open>int\<close>/\<open>nat\<close> where the code only ever
    holds an integer there). Rounding of doubles, \<^verbatim>\<open>NaN\<close>, the infinities and the sign of
    zero have no counterpart in \<open>real\<close>; where the code can produce one of them on the
    inputs a definition covers, the definition returns \<open>None\<close> or an error value instead.
  \<^item> The closure variable \<^verbatim>\<open>seed\<close> of the generator is threaded explicitly: every function
    that calls \<^verbatim>\<open>rand()\<close> takes the seed and returns the new one with its result.
  \<^item> An object mutated in place is returned updated.
  \<^item> Where the repository holds two generations of one module, the later one keeps the
    source's names and the earlier one carries the suffix \<open>_old\<close>.
\<close>

subsection \<open>utils/math.js: the seeded generator\<close>

text \<open>
  \<^verbatim>\<open>parseInt(alphaNumSeed, 36)\<close> on a string without leading blanks or sign: the longest
  prefix of base-36 digits is read, and no digit at all gives \<^verbatim>\<open>NaN\<close> (\<open>None\<close>).
  The value is exact below \<open>2^53\<close>.
\<close>

definition digit36 :: "char \<Rightarrow> nat option" where
  "digit36 c =
     (let n = of_char c :: nat in
      if 48 \<le> n \<and> n \<le> 57 then Some (n - 48)
      else if 97 \<le> n \<and> n \<le> 122 then Some (n - 87)
      else if 65 \<le> n \<and> n \<le> 90 then Some (n - 55)
      else None)"

fun parseDigits36 :: "nat \<Rightarrow> string \<Rightarrow> nat" where
  "parseDigits36 acc [] = acc"
| "parseDigits36 acc (c # cs) =
     (case digit36 c of
        None \<Rightarrow> acc
      | Some d \<Rightarrow> parseDigits36 (acc * 36 + d) cs)"

definition parseInt36 :: "string \<Rightarrow> nat option" where
  "parseInt36 s =
     (case s of
        [] \<Rightarrow> None
      | c # cs \<Rightarrow> (case digit36 c of None \<Rightarrow> None | Some d \<Rightarrow> Some (parseDigits36 0 s)))"

text \<open>\<^verbatim>\<open>getPrng\<close>: the state of the returned closure is the parsed seed.\<close>

definition getPrng :: "string \<Rightarrow> nat option" where
  "getPrng alphaNumSeed = parseInt36 alphaNumSeed"

text \<open>
  One call of the closure: \<^verbatim>\<open>seed = (seed * 16807) % 2147483647; return seed / 2147483646\<close>.
  The product is exact in a double for every seed below \<open>2^31\<close>, which every seed is after
  the first call. A first seed from \<open>2^53 / 16807\<close> up has its product rounded in the code
  and exact here, and a parsed seed from \<open>2^53\<close> up is rounded by \<^verbatim>\<open>parseInt\<close> already.
\<close>

definition nextSeed :: "nat \<Rightarrow> nat" where
  "nextSeed seed = (seed * 16807) mod 2147483647"

definition rand :: "nat \<Rightarrow> real \<times> nat" where
  "rand seed = (real (nextSeed seed) / 2147483646, nextSeed seed)"

text \<open>\<^verbatim>\<open>randInt(min, max) = min + Math.floor(rand() * (max - min))\<close>.\<close>

definition randInt :: "int \<Rightarrow> real \<Rightarrow> nat \<Rightarrow> int \<times> nat" where
  "randInt lo hi seed =
     (case rand seed of (r, seed') \<Rightarrow> (lo + \<lfloor>r * (hi - of_int lo)\<rfloor>, seed'))"

text \<open>The value of the \<open>n\<close>-th call (\<open>n = 0\<close> is the first) of the closure made from a seed.\<close>

fun randSeq :: "nat \<Rightarrow> nat \<Rightarrow> real" where
  "randSeq seed 0 = fst (rand seed)"
| "randSeq seed (Suc n) = randSeq (snd (rand seed)) n"

subsection \<open>utils/math.js: trigonometry in turns\<close>

text \<open>
  The lookup tables hold \<^verbatim>\<open>Math.sin\<close>, \<^verbatim>\<open>Math.cos\<close> and \<^verbatim>\<open>Math.asin\<close> at 1024 (1025 for
  the inverse) points. \<^verbatim>\<open>turns % 1\<close> for \<open>turns \<ge> 1\<close> is the fractional part. An index
  outside the inverse table reads \<^verbatim>\<open>undefined\<close> and the result is \<^verbatim>\<open>NaN\<close> (\<open>None\<close>).
  The entries are exact sines and cosines here and doubles in the code (\<^verbatim>\<open>Math.sin\<close> of a
  half turn is about \<open>1.22e-16\<close>, not 0): the floor of an offset that is a whole number
  here can be one less in the code.
\<close>

definition LUT_RES :: real where "LUT_RES = 1024"
definition HALF_LUT_RES :: real where "HALF_LUT_RES = LUT_RES / 2"
definition PI_2 :: real where "PI_2 = 2 * pi"

definition roundAngle :: "real \<Rightarrow> real" where
  "roundAngle turns =
     (if turns \<ge> 1 then turns - of_int \<lfloor>turns\<rfloor>
      else if turns < 0 then turns + of_int \<lceil>\<bar>turns\<bar>\<rceil>
      else turns)"

definition SIN_LUT :: "int \<Rightarrow> real" where
  "SIN_LUT i = sin (PI_2 * of_int i / LUT_RES)"

definition COS_LUT :: "int \<Rightarrow> real" where
  "COS_LUT i = cos (PI_2 * of_int i / LUT_RES)"

definition ASIN_LUT :: "int \<Rightarrow> real" where
  "ASIN_LUT i = arcsin ((of_int i - HALF_LUT_RES) / HALF_LUT_RES)"

definition sin_turns :: "real \<Rightarrow> real" where
  "sin_turns turns = SIN_LUT \<lfloor>roundAngle turns * LUT_RES\<rfloor>"

definition cos_turns :: "real \<Rightarrow> real" where
  "cos_turns turns = COS_LUT \<lfloor>roundAngle turns * LUT_RES\<rfloor>"

definition asin_turns :: "real \<Rightarrow> real option" where
  "asin_turns ratio =
     (let index = \<lfloor>ratio * HALF_LUT_RES + HALF_LUT_RES\<rfloor>
      in if 0 \<le> index \<and> index \<le> 1024 then Some (ASIN_LUT index / PI_2) else None)"

subsection \<open>Power and quotient of JavaScript numbers\<close>

text \<open>
  \<^verbatim>\<open>b ** e\<close> and \<^verbatim>\<open>n / d\<close> where the result is a finite number, \<open>None\<close> where it is
  \<^verbatim>\<open>NaN\<close> or infinite: any base to the power 0 is 1; zero to a negative power is infinite;
  a negative base has a power only at a whole exponent; a quotient by zero is infinite or
  \<^verbatim>\<open>NaN\<close>.
\<close>

definition pow_js :: "real \<Rightarrow> real \<Rightarrow> real option" where
  "pow_js b e =
     (if e = 0 then Some 1
      else if 0 < b then Some (b powr e)
      else if b = 0 then (if 0 < e then Some 0 else None)
      else if of_int \<lfloor>e\<rfloor> = e then Some (power_int b \<lfloor>e\<rfloor>)
      else None)"

definition div_js :: "real \<Rightarrow> real \<Rightarrow> real option" where
  "div_js n d = (if d = 0 then None else Some (n / d))"

subsection \<open>meebas/spikes.js, later generation\<close>

text \<open>
  A coordinate that depends on the offset angle is \<open>None\<close> when that angle is \<^verbatim>\<open>NaN\<close>
  (a radius of zero, or one smaller than half the spike width). The drain is \<open>None\<close> for
  a length that is not positive: the power is then zero or \<^verbatim>\<open>NaN\<close> and the quotient is no
  finite number.
\<close>

record offset =
  x1_offset :: real
  y1_offset :: real
  x2_offset :: "real option"
  y2_offset :: "real option"
  x3_offset :: "real option"
  y3_offset :: "real option"

record spike =
  fill_spike :: string
  length_spike :: real
  drain_spike :: "real option"
  x1_spike :: real
  y1_spike :: real
  x2_spike :: "real option"
  y2_spike :: "real option"
  x3_spike :: "real option"
  y3_spike :: "real option"
  offset_spike :: offset
  deactivateTime :: "real option"

definition SPIKE_WIDTH :: real where "SPIKE_WIDTH = 6"
definition HALF_WIDTH :: real where "HALF_WIDTH = SPIKE_WIDTH / 2"
definition DRAIN_LENGTH_QUOTIENT :: real where "DRAIN_LENGTH_QUOTIENT = 1.2"

text \<open>\<^verbatim>\<open>settings.simulation.temperature\<close> is the argument; the settings file has 30.\<close>

definition BASE_DRAIN :: "real \<Rightarrow> real" where
  "BASE_DRAIN temperature = 25000 * max 0 temperature / 30"

definition getXOffset :: "real \<Rightarrow> real \<Rightarrow> real" where
  "getXOffset angle distance = of_int \<lfloor>cos_turns angle * distance\<rfloor>"

definition getYOffset :: "real \<Rightarrow> real \<Rightarrow> real" where
  "getYOffset angle distance = of_int \<lfloor>- sin_turns angle * distance\<rfloor>"

definition offsetAngleOf :: "real \<Rightarrow> real option" where
  "offsetAngleOf radius = (if radius = 0 then None else asin_turns (HALF_WIDTH / radius))"

definition spikeOffsets :: "real \<Rightarrow> real \<Rightarrow> real \<Rightarrow> offset" where
  "spikeOffsets radius angle len =
     (let offsetAngle = offsetAngleOf radius in
      \<lparr> x1_offset = getXOffset angle (len + radius),
        y1_offset = getYOffset angle (len + radius),
        x2_offset = map_option (\<lambda>a. getXOffset (angle - a) (radius - 1)) offsetAngle,
        y2_offset = map_option (\<lambda>a. getYOffset (angle - a) (radius - 1)) offsetAngle,
        x3_offset = map_option (\<lambda>a. getXOffset (angle + a) (radius - 1)) offsetAngle,
        y3_offset = map_option (\<lambda>a. getYOffset (angle + a) (radius - 1)) offsetAngle \<rparr>)"

definition spawnSpike :: "real \<Rightarrow> real \<Rightarrow> real \<Rightarrow> real \<Rightarrow> spike" where
  "spawnSpike temperature radius angle len =
     \<lparr> fill_spike = ''black'',
       length_spike = len,
       drain_spike = Option.bind (pow_js len DRAIN_LENGTH_QUOTIENT) (div_js (BASE_DRAIN temperature)),
       x1_spike = 0, y1_spike = 0, x2_spike = Some 0, y2_spike = Some 0, x3_spike = Some 0, y3_spike = Some 0,
       offset_spike = spikeOffsets radius angle len,
       deactivateTime = None \<rparr>"

text \<open>The later \<^verbatim>\<open>getSpikeMover\<close> writes the six coordinates of the spike it is given.\<close>

definition getSpikeMover :: "real \<Rightarrow> real \<Rightarrow> spike \<Rightarrow> spike" where
  "getSpikeMover x y sp =
     sp\<lparr> x1_spike := x + x1_offset (offset_spike sp),
         y1_spike := y + y1_offset (offset_spike sp),
         x2_spike := map_option (\<lambda>d. x + d) (x2_offset (offset_spike sp)),
         y2_spike := map_option (\<lambda>d. y + d) (y2_offset (offset_spike sp)),
         x3_spike := map_option (\<lambda>d. x + d) (x3_offset (offset_spike sp)),
         y3_spike := map_option (\<lambda>d. y + d) (y3_offset (offset_spike sp)) \<rparr>"

subsection \<open>meebas/spikes.js, earlier generation\<close>

definition SPIKE_DRAIN :: real where "SPIKE_DRAIN = 320"

definition spawnSpike_old :: "real \<Rightarrow> real \<Rightarrow> real \<Rightarrow> spike" where
  "spawnSpike_old radius angle len =
     \<lparr> fill_spike = ''black'',
       length_spike = len,
       drain_spike = Some SPIKE_DRAIN,
       x1_spike = 0, y1_spike = 0, x2_spike = Some 0, y2_spike = Some 0, x3_spike = Some 0, y3_spike = Some 0,
       offset_spike = spikeOffsets radius angle len,
       deactivateTime = None \<rparr>"

text \<open>The earlier \<^verbatim>\<open>getSpikeMover\<close> returns a moved copy; the same record update.\<close>

definition getSpikeMover_old :: "real \<Rightarrow> real \<Rightarrow> spike \<Rightarrow> spike" where
  "getSpikeMover_old x y sp = getSpikeMover x y sp"

subsection \<open>meebas/vitals.js, later generation: vitals mutated in place\<close>

record vitals =
  calories :: real
  upkeep :: "real option"
  diesAt :: real
  spawnsAt :: real
  isDead :: bool

record vitals_settings =
  temperature :: real
  percentDiesAt :: real
  percentSpawnsAt :: real
  baseUpkeepAdjustment :: real
  upkeepPerSpike :: real
  spikeCountExponent :: real
  massCalorieExponent :: real
  upkeepPerMass :: real

text \<open>The two values the update listener derives from the settings.\<close>

definition percentStartsAt :: "vitals_settings \<Rightarrow> real" where
  "percentStartsAt cfg = (percentDiesAt cfg + percentSpawnsAt cfg) / 2"

definition upkeepAdjustment :: "vitals_settings \<Rightarrow> real" where
  "upkeepAdjustment cfg = baseUpkeepAdjustment cfg * (max 0 (temperature cfg) / 30)"

text \<open>
  The upkeep is \<open>None\<close> where the code's is \<^verbatim>\<open>NaN\<close> or infinite. The reciprocal of an
  infinite power (mass zero, negative exponent) is 0 in the code, and so it is here.
\<close>

definition calcSpikeUpkeep :: "vitals_settings \<Rightarrow> spike list \<Rightarrow> real option" where
  "calcSpikeUpkeep cfg spikes =
     (let countCost = pow_js (real (length spikes) * upkeepPerSpike cfg) (spikeCountExponent cfg);
          lengthCost = foldl (\<lambda>total perSpike. total + perSpike) 0 (map length_spike spikes)
      in map_option (\<lambda>c. c + lengthCost) countCost)"

definition calcUpkeep :: "vitals_settings \<Rightarrow> real \<Rightarrow> spike list \<Rightarrow> real option" where
  "calcUpkeep cfg mass spikes =
     (let massAdjustment =
            (case pow_js mass (massCalorieExponent cfg) of
               Some p \<Rightarrow> div_js 1 p
             | None \<Rightarrow> if mass = 0 then Some 0 else None);
          massCost = mass * upkeepPerMass cfg;
          spikeCost = calcSpikeUpkeep cfg spikes
      in case (spikeCost, massAdjustment) of
           (Some sc, Some ma) \<Rightarrow> Some (of_int \<lfloor>(massCost + sc) * ma * upkeepAdjustment cfg\<rfloor>)
         | _ \<Rightarrow> None)"

definition initVitals :: "vitals_settings \<Rightarrow> real \<Rightarrow> spike list \<Rightarrow> vitals" where
  "initVitals cfg mass spikes =
     (let cal = of_int \<lfloor>mass * percentStartsAt cfg\<rfloor>;
          dies = of_int \<lfloor>mass * percentDiesAt cfg\<rfloor>
      in \<lparr> calories = cal,
           upkeep = calcUpkeep cfg mass spikes,
           diesAt = dies,
           spawnsAt = of_int \<lfloor>mass * percentSpawnsAt cfg\<rfloor>,
           isDead = (cal < dies) \<rparr>)"

text \<open>
  \<^verbatim>\<open>drainCalories\<close> writes \<^verbatim>\<open>vitals.calories\<close> and nothing else; the pair returned is the
  mutated record and the function's return value.
\<close>

definition drainCalories :: "vitals \<Rightarrow> real \<Rightarrow> vitals \<times> real" where
  "drainCalories v drain =
     (let actualDrain = (if calories v > drain then drain else calories v)
      in (v\<lparr> calories := calories v - actualDrain \<rparr>, actualDrain))"

subsection \<open>meebas/vitals.js, earlier generation: vitals copied\<close>

record vitals_old =
  calories_old :: real
  diesAt_old :: real
  spawnsAt_old :: real
  isDead_old :: bool

definition CALORIES_DEATH :: real where "CALORIES_DEATH = 0.5"
definition CALORIES_SPAWN :: real where "CALORIES_SPAWN = 2"
definition CALORIES_START :: real where "CALORIES_START = (CALORIES_DEATH + CALORIES_SPAWN) / 2"

definition initVitals_old :: "real \<Rightarrow> vitals_old" where
  "initVitals_old mass =
     (let cal = of_int \<lfloor>mass * CALORIES_START\<rfloor>;
          dies = of_int \<lfloor>mass * CALORIES_DEATH\<rfloor>;
          spawns = of_int \<lfloor>mass * CALORIES_SPAWN\<rfloor>
      in \<lparr> calories_old = cal, diesAt_old = dies, spawnsAt_old = spawns,
           isDead_old = (cal < dies) \<rparr>)"

text \<open>\<^verbatim>\<open>setCalories\<close> returns a copy; the record passed in is not written.\<close>

definition setCalories :: "vitals_old \<Rightarrow> real \<Rightarrow> vitals_old" where
  "setCalories v cal = v\<lparr> calories_old := cal, isDead_old := (cal < diesAt_old v) \<rparr>"

text \<open>The object \<^verbatim>\<open>{vitals, drain}\<close> that the earlier \<^verbatim>\<open>drainCalories\<close> returns, as a pair.\<close>

definition drainCalories_old :: "vitals_old \<Rightarrow> real \<Rightarrow> vitals_old \<times> real" where
  "drainCalories_old v drain =
     (let cal = (if drain < calories_old v then calories_old v - drain else 0)
      in (v\<lparr> calories_old := cal, isDead_old := (cal < diesAt_old v) \<rparr>,
          if cal > 0 then drain else calories_old v))"

subsection \<open>Helpers of utils/arrays.js and utils/functions.js\<close>

text \<open>
  Modelled from the spec: \<^verbatim>\<open>utils/arrays.js\<close> and \<^verbatim>\<open>utils/functions.js\<close> are not among the
  sources. \<^verbatim>\<open>range(n)\<close> is the list of the indices below \<open>n\<close> (a zero-length range for
  \<open>n \<le> 0\<close>), \<^verbatim>\<open>flatten\<close> and \<^verbatim>\<open>concatBytes\<close> concatenate, \<^verbatim>\<open>findIndexes\<close> lists the
  positions whose item passes the test, \<^verbatim>\<open>map\<close> and \<^verbatim>\<open>filter\<close> are the array methods of
  the same names as functions of the array, and \<^verbatim>\<open>pipe(x).into(f, a).done()\<close> is \<^verbatim>\<open>f(x, a)\<close>.
  A callback that draws random numbers is called on the items from left to right, and
  the seed goes from one call to the next.
\<close>

definition range :: "int \<Rightarrow> nat list" where
  "range n = [0..<nat n]"

definition flatten :: "'a list list \<Rightarrow> 'a list" where
  "flatten xss = concat xss"

definition concatBytes :: "nat list list \<Rightarrow> nat list" where
  "concatBytes xss = concat xss"

definition findIndexes :: "'a list \<Rightarrow> ('a \<Rightarrow> bool) \<Rightarrow> nat list" where
  "findIndexes arr test = filter (\<lambda>i. test (arr ! i)) [0..<length arr]"

fun mapRand :: "('a \<Rightarrow> nat \<Rightarrow> 'b \<times> nat) \<Rightarrow> 'a list \<Rightarrow> nat \<Rightarrow> 'b list \<times> nat" where
  "mapRand f [] seed = ([], seed)"
| "mapRand f (x # xs) seed =
     (case f x seed of (y, seed') \<Rightarrow>
        (case mapRand f xs seed' of (ys, seed'') \<Rightarrow> (y # ys, seed'')))"

fun filterRand :: "('a \<Rightarrow> nat \<Rightarrow> bool \<times> nat) \<Rightarrow> 'a list \<Rightarrow> nat \<Rightarrow> 'a list \<times> nat" where
  "filterRand f [] seed = ([], seed)"
| "filterRand f (x # xs) seed =
     (case f x seed of (keep, seed') \<Rightarrow>
        (case filterRand f xs seed' of (ys, seed'') \<Rightarrow>
           (if keep then x # ys else ys, seed'')))"

text \<open>
  \<^verbatim>\<open>Uint8Array.from\<close> stores a number modulo 256, and stores 0 for \<^verbatim>\<open>undefined\<close>
  (\<open>None\<close>).
\<close>

definition toUint8 :: "int \<Rightarrow> nat" where
  "toUint8 n = nat (n mod 256)"

definition Uint8Array_from :: "int list \<Rightarrow> nat list" where
  "Uint8Array_from xs = map toUint8 xs"

definition Uint8Array_from_opt :: "int option list \<Rightarrow> nat list" where
  "Uint8Array_from_opt xs = map (\<lambda>x. case x of None \<Rightarrow> 0 | Some n \<Rightarrow> toUint8 n) xs"

text \<open>\<^verbatim>\<open>arr.slice(start, end)\<close> for a start that is not negative; no end is \<^verbatim>\<open>undefined\<close>.\<close>

definition slice :: "'a list \<Rightarrow> nat \<Rightarrow> nat option \<Rightarrow> 'a list" where
  "slice arr start end =
     (case end of
        None \<Rightarrow> drop start arr
      | Some e \<Rightarrow> drop start (take e arr))"

text \<open>
  \<^verbatim>\<open>arr.splice(start, 0, item)\<close>: a start beyond the end inserts at the end, a negative one
  counts from the end and stops at the front.
\<close>

definition splice_insert :: "'a list \<Rightarrow> int \<Rightarrow> 'a \<Rightarrow> 'a list" where
  "splice_insert arr start item =
     (let len = int (length arr);
          k = (if start < 0 then max (len + start) 0 else min start len)
      in take (nat k) arr @ [item] @ drop (nat k) arr)"

text \<open>
  \<^verbatim>\<open>Math.floor(a / b)\<close>; a zero divisor makes the quotient \<^verbatim>\<open>NaN\<close> or infinite, which is
  \<open>None\<close>.
\<close>

definition floorDiv :: "real \<Rightarrow> real \<Rightarrow> int option" where
  "floorDiv a b = (if b = 0 then None else Some \<lfloor>a / b\<rfloor>)"

subsection \<open>meebas/genome.js, later generation: settings\<close>

record genome_settings =
  volatility :: real
  averageGeneCount :: real
  averageGeneSize :: real
  baseChanceMutateBit :: real
  baseChanceDropByte :: real
  baseChanceRepeatByte :: real
  baseChanceTransposeByte :: real
  baseChanceDropGene :: real
  baseChanceRepeatGene :: real
  baseChanceTransposeGene :: real
  percentSizeGenes :: real
  percentSpikeGenes :: real
  percentRedGenes :: real
  percentGreenGenes :: real
  percentBlueGenes :: real
  bitsPerMass :: real
  bitsPerSpikeLength :: real

text \<open>The dynamic settings, as the update listener computes them.\<close>

definition maxGeneCount :: "genome_settings \<Rightarrow> real" where
  "maxGeneCount cfg = 2 * averageGeneCount cfg"

definition maxGeneSize :: "genome_settings \<Rightarrow> real" where
  "maxGeneSize cfg = 2 * averageGeneSize cfg"

definition volatilityAdjustment :: "genome_settings \<Rightarrow> real" where
  "volatilityAdjustment cfg = volatility cfg / 100"

definition chanceMutateBit :: "genome_settings \<Rightarrow> real" where
  "chanceMutateBit cfg = baseChanceMutateBit cfg * volatilityAdjustment cfg"

definition chanceDropByte :: "genome_settings \<Rightarrow> real" where
  "chanceDropByte cfg = baseChanceDropByte cfg * volatilityAdjustment cfg"

definition chanceRepeatByte :: "genome_settings \<Rightarrow> real" where
  "chanceRepeatByte cfg = baseChanceRepeatByte cfg * volatilityAdjustment cfg"

definition chanceTransposeByte :: "genome_settings \<Rightarrow> real" where
  "chanceTransposeByte cfg = baseChanceTransposeByte cfg * volatilityAdjustment cfg"

definition chanceDropGene :: "genome_settings \<Rightarrow> real" where
  "chanceDropGene cfg = baseChanceDropGene cfg * volatilityAdjustment cfg"

definition chanceRepeatGene :: "genome_settings \<Rightarrow> real" where
  "chanceRepeatGene cfg = baseChanceRepeatGene cfg * volatilityAdjustment cfg"

definition chanceTransposeGene :: "genome_settings \<Rightarrow> real" where
  "chanceTransposeGene cfg = baseChanceTransposeGene cfg * volatilityAdjustment cfg"

definition BYTES :: "genome_settings \<Rightarrow> (nat \<times> real) list" where
  "BYTES cfg =
     [(0xF0, percentSizeGenes cfg),
      (0xF1, percentSpikeGenes cfg),
      (0xF2, percentRedGenes cfg),
      (0xF3, percentGreenGenes cfg),
      (0xF4, percentBlueGenes cfg)]"

text \<open>
  The running totals of the chances, scaled to end at 1. The chances are taken to have
  a sum that is not zero: \<^verbatim>\<open>1 / 0\<close> is infinite in the code, and the totals are then
  infinite or \<^verbatim>\<open>NaN\<close>. Whatever the totals are, the byte that \<^verbatim>\<open>randControlByte\<close>
  returns is the byte of one of the five entries.
\<close>

definition ratioToOne :: "genome_settings \<Rightarrow> real" where
  "ratioToOne cfg = 1 / foldl (\<lambda>sum (byte, chance). sum + chance) 0 (BYTES cfg)"

definition controlByteRolls :: "genome_settings \<Rightarrow> (nat \<times> real) list" where
  "controlByteRolls cfg =
     tl (foldl (\<lambda>rolls ((byte, chance), i).
                  rolls @ [(byte, chance * ratioToOne cfg + snd (rolls ! i))])
               [(0, 0)]
               (zip (BYTES cfg) [0..<length (BYTES cfg)]))"

subsection \<open>meebas/genome.js, later generation: random genomes\<close>

text \<open>
  \<^verbatim>\<open>randControlByte\<close>: the first roll entry above the roll, or else the last entry.
\<close>

definition randControlByte :: "genome_settings \<Rightarrow> nat \<Rightarrow> nat \<times> nat" where
  "randControlByte cfg seed =
     (case rand seed of (roll, seed') \<Rightarrow>
        (case find (\<lambda>(byte, maxRoll). roll < maxRoll) (controlByteRolls cfg) of
           Some matchingByte \<Rightarrow> (fst matchingByte, seed')
         | None \<Rightarrow>
             (fst (controlByteRolls cfg ! (length (controlByteRolls cfg) - 1)), seed')))"

text \<open>The body is drawn before the control byte: the array literal's spread comes second
  in the source text, but \<^verbatim>\<open>body\<close> is a constant computed on the line before.\<close>

definition randGene :: "genome_settings \<Rightarrow> nat \<Rightarrow> int list \<times> nat" where
  "randGene cfg seed =
     (case randInt 1 (maxGeneSize cfg) seed of (n, s1) \<Rightarrow>
        (case mapRand (\<lambda>_. randInt 0 256) (range n) s1 of (body, s2) \<Rightarrow>
           (case randControlByte cfg s2 of (c, s3) \<Rightarrow> (int c # body, s3))))"

definition createGenes :: "genome_settings \<Rightarrow> nat \<Rightarrow> int list list \<times> nat" where
  "createGenes cfg seed =
     (case randInt 1 (maxGeneCount cfg) seed of (n, s1) \<Rightarrow>
        mapRand (\<lambda>_. randGene cfg) (range n) s1)"

definition createGenome :: "genome_settings \<Rightarrow> nat \<Rightarrow> nat list \<times> nat" where
  "createGenome cfg seed =
     (case createGenes cfg seed of (genes, seed') \<Rightarrow> (Uint8Array_from (flatten genes), seed'))"

subsection \<open>meebas/genome.js, later generation: reading a genome\<close>

record gene =
  gene_type :: nat
  location :: real
  bytes :: "nat list"

record spikeCommand =
  angle_cmd :: real
  length_cmd :: "int option"

record commands =
  size_cmd :: "int option"
  spikes_cmd :: "spikeCommand list"
  hue_cmd :: real

text \<open>\<^verbatim>\<open>byte.toString(2)\<close>: the binary digits, most significant first.\<close>

fun toString2 :: "nat \<Rightarrow> string" where
  "toString2 n =
     (if n < 2 then (if n = 0 then ''0'' else ''1'')
      else toString2 (n div 2) @ (if n mod 2 = 0 then ''0'' else ''1''))"

declare toString2.simps [simp del]

definition countBits :: "nat list \<Rightarrow> nat" where
  "countBits bs =
     foldl (\<lambda>count byte. count + length (filter (\<lambda>bit. bit = CHR ''1'') (toString2 byte))) 0 bs"

definition findControlIndexes :: "nat list \<Rightarrow> nat list" where
  "findControlIndexes genome = findIndexes genome (\<lambda>byte. byte \<ge> 0xF0)"

definition toGenes :: "nat list \<Rightarrow> gene list" where
  "toGenes genome =
     (let indexes = findControlIndexes genome in
      map (\<lambda>i. \<lparr> gene_type = genome ! (indexes ! i),
                 location = real (indexes ! i) / real (length genome),
                 bytes = slice genome (indexes ! i + 1)
                           (if i + 1 < length indexes then Some (indexes ! (i + 1)) else None) \<rparr>)
          [0..<length indexes])"

definition countTypeBits :: "nat \<Rightarrow> gene list \<Rightarrow> nat" where
  "countTypeBits typeByte genes =
     foldl (\<lambda>sum g. sum + countBits (bytes g)) 0 (filter (\<lambda>g. gene_type g = typeByte) genes)"

definition readSpikeGene :: "genome_settings \<Rightarrow> gene \<Rightarrow> spikeCommand" where
  "readSpikeGene cfg g =
     \<lparr> angle_cmd = location g,
       length_cmd = floorDiv (real (countBits (bytes g))) (bitsPerSpikeLength cfg) \<rparr>"

text \<open>\<^verbatim>\<open>rgbToHue\<close> of \<^verbatim>\<open>utils/colors.js\<close> is not among the sources; it is a parameter.\<close>

definition readGenome ::
  "(nat \<Rightarrow> nat \<Rightarrow> nat \<Rightarrow> real) \<Rightarrow> genome_settings \<Rightarrow> nat list \<Rightarrow> commands" where
  "readGenome rgbToHue cfg genome =
     (let genes = toGenes genome in
      \<lparr> size_cmd = floorDiv (real (countTypeBits 0xF0 genes)) (bitsPerMass cfg),
        spikes_cmd = map (readSpikeGene cfg) (filter (\<lambda>g. gene_type g = 0xF1) genes),
        hue_cmd = rgbToHue (countTypeBits 0xF2 genes) (countTypeBits 0xF3 genes)
                (countTypeBits 0xF4 genes) \<rparr>)"

subsection \<open>meebas/genome.js, later generation: replication\<close>

text \<open>\<^verbatim>\<open>parseInt(str, 2)\<close> on a string of binary digits.\<close>

definition parseInt2 :: "string \<Rightarrow> nat" where
  "parseInt2 str = foldl (\<lambda>acc c. 2 * acc + (if c = CHR ''1'' then 1 else 0)) 0 str"

definition randBit :: "real \<Rightarrow> nat \<Rightarrow> nat \<Rightarrow> char \<times> nat" where
  "randBit chance i seed =
     (case rand seed of (r, seed') \<Rightarrow> (if r < chance then CHR ''1'' else CHR ''0'', seed'))"

definition mutateBitsWith :: "real \<Rightarrow> nat \<Rightarrow> nat \<Rightarrow> nat \<times> nat" where
  "mutateBitsWith chance byte seed =
     (case mapRand (randBit chance) (range 8) seed of (bits, seed') \<Rightarrow>
        (byte XOR parseInt2 bits, seed'))"

definition mutateBits :: "genome_settings \<Rightarrow> nat \<Rightarrow> nat \<Rightarrow> nat \<times> nat" where
  "mutateBits cfg byte seed = mutateBitsWith (chanceMutateBit cfg) byte seed"

text \<open>The callback \<^verbatim>\<open>() => rand() >= chance\<close> of the two \<^verbatim>\<open>filter\<close> stages.\<close>

definition keepRoll :: "real \<Rightarrow> 'a \<Rightarrow> nat \<Rightarrow> bool \<times> nat" where
  "keepRoll chance item seed = (case rand seed of (r, seed') \<Rightarrow> (r \<ge> chance, seed'))"

text \<open>
  The loop of \<^verbatim>\<open>repeatItems\<close>: the item at \<open>i\<close> is pushed, and \<open>i\<close> stays where it is when
  the roll is below the chance. The loop need not end (it does not when every roll is
  below the chance), so the result is an \<open>option\<close>.
\<close>

partial_function (option) repeatLoop ::
  "'a list \<Rightarrow> real \<Rightarrow> nat \<Rightarrow> 'a list \<Rightarrow> nat \<Rightarrow> ('a list \<times> nat) option" where
  "repeatLoop arr chance i repeated seed =
     (if i < length arr then
        (case rand seed of (r, seed') \<Rightarrow>
           repeatLoop arr chance (if r < chance then i else i + 1) (repeated @ [arr ! i]) seed')
      else Some (repeated, seed))"

definition repeatItems :: "'a list \<Rightarrow> real \<Rightarrow> nat \<Rightarrow> ('a list \<times> nat) option" where
  "repeatItems arr chance seed = repeatLoop arr chance 0 [] seed"

text \<open>The two loops of \<^verbatim>\<open>transposeItems\<close>, each with the arrays it pushes to.\<close>

fun transposeSplit ::
  "'a list \<Rightarrow> real \<Rightarrow> 'a list \<Rightarrow> 'a list \<Rightarrow> nat \<Rightarrow> ('a list \<times> 'a list) \<times> nat" where
  "transposeSplit [] chance transposed toTranspose seed = ((transposed, toTranspose), seed)"
| "transposeSplit (item # arr) chance transposed toTranspose seed =
     (case rand seed of (r, seed') \<Rightarrow>
        (if r < chance
         then transposeSplit arr chance transposed (toTranspose @ [item]) seed'
         else transposeSplit arr chance (transposed @ [item]) toTranspose seed'))"

fun transposeInsert :: "'a list \<Rightarrow> 'a list \<Rightarrow> nat \<Rightarrow> 'a list \<times> nat" where
  "transposeInsert [] transposed seed = (transposed, seed)"
| "transposeInsert (item # toTranspose) transposed seed =
     (case randInt 0 (real (length transposed)) seed of (k, seed') \<Rightarrow>
        transposeInsert toTranspose (splice_insert transposed k item) seed')"

definition transposeItems :: "'a list \<Rightarrow> real \<Rightarrow> nat \<Rightarrow> 'a list \<times> nat" where
  "transposeItems arr chance seed =
     (case transposeSplit arr chance [] [] seed of ((transposed, toTranspose), seed') \<Rightarrow>
        transposeInsert toTranspose transposed seed')"

definition joinGeneArray :: "nat list list \<Rightarrow> nat list" where
  "joinGeneArray geneArray = concatBytes geneArray"

text \<open>
  \<^verbatim>\<open>chunkBy\<close> of \<^verbatim>\<open>utils/arrays.js\<close> is not among the sources; it is a parameter, called with
  the byte stream and \<^verbatim>\<open>findControlIndexes\<close> as the source calls it.
\<close>

definition replicateGenome ::
  "(nat list \<Rightarrow> (nat list \<Rightarrow> nat list) \<Rightarrow> nat list list) \<Rightarrow> genome_settings \<Rightarrow>
   nat list \<Rightarrow> nat \<Rightarrow> (nat list \<times> nat) option" where
  "replicateGenome chunkBy cfg genome seed =
     (case mapRand (mutateBits cfg) genome seed of (mutated, s1) \<Rightarrow>
      case filterRand (keepRoll (chanceDropByte cfg)) mutated s1 of (kept, s2) \<Rightarrow>
      case repeatItems kept (chanceRepeatByte cfg) s2 of
        None \<Rightarrow> None
      | Some (repeated, s3) \<Rightarrow>
      case transposeItems repeated (chanceTransposeByte cfg) s3 of (transposed, s4) \<Rightarrow>
      case filterRand (keepRoll (chanceDropGene cfg)) (chunkBy transposed findControlIndexes) s4
        of (keptGenes, s5) \<Rightarrow>
      case repeatItems keptGenes (chanceRepeatGene cfg) s5 of
        None \<Rightarrow> None
      | Some (repeatedGenes, s6) \<Rightarrow>
      case transposeItems repeatedGenes (chanceTransposeGene cfg) s6 of (transposedGenes, s7) \<Rightarrow>
        Some (joinGeneArray transposedGenes, s7))"

subsection \<open>meebas/genome.js, earlier generation\<close>

definition MAX_GENES :: real where "MAX_GENES = 2 * 48"
definition MAX_BYTES :: real where "MAX_BYTES = 2 * 6"

definition CONTROL_BYTE_FREQUENCY :: "nat list" where
  "CONTROL_BYTE_FREQUENCY = [0xF0, 0xF0, 0xF0, 0xF0, 0xF0, 0xF0, 0xF0, 0xF0, 0xF0, 0xF1]"

definition BITS_PER_SIZE_PIXEL :: real where "BITS_PER_SIZE_PIXEL = 1"
definition BITS_PER_SPIKE_LENGTH :: real where "BITS_PER_SPIKE_LENGTH = 2"
definition MUTATE_BIT_CHANCE :: real where "MUTATE_BIT_CHANCE = 0.0005"

text \<open>
  Reading an array at an index: \<^verbatim>\<open>undefined\<close> (\<open>None\<close>) outside it. The control byte is
  drawn first here, the body after it.
\<close>

definition at_index :: "'a list \<Rightarrow> int \<Rightarrow> 'a option" where
  "at_index arr i = (if 0 \<le> i \<and> i < int (length arr) then Some (arr ! nat i) else None)"

definition randGene_old :: "nat \<Rightarrow> int option list \<times> nat" where
  "randGene_old seed =
     (case randInt 0 (real (length CONTROL_BYTE_FREQUENCY)) seed of (k, s1) \<Rightarrow>
        (case randInt 1 MAX_BYTES s1 of (n, s2) \<Rightarrow>
           (case mapRand (\<lambda>_. randInt 0 256) (range n) s2 of (body, s3) \<Rightarrow>
              (map_option int (at_index CONTROL_BYTE_FREQUENCY k) # map Some body, s3))))"

definition createGenes_old :: "nat \<Rightarrow> int option list list \<times> nat" where
  "createGenes_old seed =
     (case randInt 1 MAX_GENES seed of (n, s1) \<Rightarrow> mapRand (\<lambda>_. randGene_old) (range n) s1)"

definition createGenome_old :: "nat \<Rightarrow> nat list \<times> nat" where
  "createGenome_old seed =
     (case createGenes_old seed of (genes, seed') \<Rightarrow>
        (Uint8Array_from_opt (flatten genes), seed'))"

record commands_old =
  size_old :: int
  spikes_old :: "spikeCommand list"

text \<open>The control positions: every index, or \<open>-1\<close>, and then the ones that are not \<open>-1\<close>.\<close>

definition toGenes_old :: "nat list \<Rightarrow> gene list" where
  "toGenes_old genome =
     (let indexes = map nat (filter (\<lambda>index. index \<noteq> -1)
                      (map (\<lambda>i. if genome ! i \<ge> 0xF0 then int i else -1) [0..<length genome]))
      in map (\<lambda>i. \<lparr> gene_type = genome ! (indexes ! i),
                    location = real (indexes ! i) / real (length genome),
                    bytes = slice genome (indexes ! i + 1)
                              (if i + 1 < length indexes then Some (indexes ! (i + 1)) else None) \<rparr>)
             [0..<length indexes])"

definition readSizeGene :: "gene \<Rightarrow> int" where
  "readSizeGene g = \<lfloor>real (countBits (bytes g)) / BITS_PER_SIZE_PIXEL\<rfloor>"

definition readSpikeGene_old :: "gene \<Rightarrow> spikeCommand" where
  "readSpikeGene_old g =
     \<lparr> angle_cmd = location g,
       length_cmd = Some \<lfloor>real (countBits (bytes g)) / BITS_PER_SPIKE_LENGTH\<rfloor> \<rparr>"

definition readGenome_old :: "nat list \<Rightarrow> commands_old" where
  "readGenome_old genome =
     (let genes = toGenes_old genome in
      \<lparr> size_old = foldl (\<lambda>sum g. sum + readSizeGene g) 0
                     (filter (\<lambda>g. gene_type g = 0xF0) genes),
        spikes_old = map readSpikeGene_old (filter (\<lambda>g. gene_type g = 0xF1) genes) \<rparr>)"

definition mutateBits_old :: "nat \<Rightarrow> nat \<Rightarrow> nat \<times> nat" where
  "mutateBits_old byte seed = mutateBitsWith MUTATE_BIT_CHANCE byte seed"

definition replicateGenome_old :: "nat list \<Rightarrow> nat \<Rightarrow> nat list \<times> nat" where
  "replicateGenome_old genome seed = mapRand mutateBits_old genome seed"

subsection \<open>meebas/bodies.js\<close>

text \<open>
  \<^verbatim>\<open>bodies.js\<close> imports \<^verbatim>\<open>initVitals\<close> and \<^verbatim>\<open>setCalories\<close> from \<^verbatim>\<open>vitals.js\<close>. It calls
  \<^verbatim>\<open>initVitals(mass, spikes)\<close>, gives its motes an upkeep, and calls
  \<^verbatim>\<open>setCalories(body.vitals, ...)\<close> and the spike mover as statements: it is written against
  the generation that mutates in place. \<^verbatim>\<open>initVitals\<close> and the spikes are therefore the
  later generation's. The later \<^verbatim>\<open>vitals.js\<close> among the sources exports no
  \<^verbatim>\<open>setCalories\<close>; the in-place one is modelled below.

  The vitals objects live in a store, a list indexed by address, and a body holds the
  address of its vitals: a write through the vitals of one body can then be told from a
  write through those of another. \<^verbatim>\<open>initVitals\<close> returns a new object, which \<^verbatim>\<open>initBody\<close>
  puts at the end of the store.

  \<^verbatim>\<open>toBytes\<close>, \<^verbatim>\<open>toHex\<close>, \<^verbatim>\<open>chunkBy\<close> (\<^verbatim>\<open>utils/arrays.js\<close>), \<^verbatim>\<open>rgbToHue\<close>
  (\<^verbatim>\<open>utils/colors.js\<close>) and \<^verbatim>\<open>toVector\<close> (\<^verbatim>\<open>utils/physics.js\<close>) are not among the sources:
  they are parameters, collected in one record.
\<close>

record externals =
  toBytes :: "string \<Rightarrow> nat list"
  toHex :: "nat list \<Rightarrow> string"
  chunkBy :: "nat list \<Rightarrow> (nat list \<Rightarrow> nat list) \<Rightarrow> nat list list"
  rgbToHue :: "nat \<Rightarrow> nat \<Rightarrow> nat \<Rightarrow> real"
  toVector :: "real \<Rightarrow> real \<Rightarrow> real \<times> real"

record velocity =
  angle_vel :: real
  speed_vel :: real

record meta =
  nextX :: real
  nextY :: real
  lastCollisionBody :: "nat option"

record body =
  dna_body :: string
  fill_body :: string
  x_body :: real
  y_body :: real
  mass_body :: real
  radius_body :: real
  velocity_body :: velocity
  vitals_body :: nat
  spikes_body :: "spike list"
  meta_body :: meta

record body_settings =
  minRadius :: real
  energy :: real
  width :: real
  height :: real
  spawningEnergyAdjustment :: real

definition sqr :: "real \<Rightarrow> real" where
  "sqr n = n * n"

text \<open>
  Modelled from the spec: the \<^verbatim>\<open>setCalories\<close> of the in-place \<^verbatim>\<open>vitals.js\<close> that
  \<^verbatim>\<open>bodies.js\<close> imports is not among the sources. By the specification, \<open>isDead\<close> is
  recomputed on every change of the calories and never set on its own, and
  \<^verbatim>\<open>replicateParent\<close> sets the starting calories of the child with this call: the function
  writes the calories and \<open>isDead\<close> of the vitals object at the address it is given, as the
  copying \<^verbatim>\<open>setCalories\<close> of the earlier generation does on its copy. No other object of
  the store is written.
\<close>

definition setCalories_inplace :: "vitals list \<Rightarrow> nat \<Rightarrow> real \<Rightarrow> vitals list" where
  "setCalories_inplace store ref cal =
     (if ref < length store
      then store[ref := (store ! ref)\<lparr> calories := cal, isDead := (cal < diesAt (store ! ref)) \<rparr>]
      else store)"

text \<open>
  The dynamic settings that \<^verbatim>\<open>initBody\<close> and \<^verbatim>\<open>replicateParent\<close> read, and the values the
  update listener gives them.
\<close>

record dynamic_body =
  minMass :: real
  maxSpawningEnergy :: real

definition updateDynamicBody :: "body_settings \<Rightarrow> dynamic_body" where
  "updateDynamicBody cfg =
     (let tankSizeAdjustment = width cfg * height cfg / 2073600
      in \<lparr> minMass = of_int \<lceil>pi * sqr (minRadius cfg)\<rceil>,
           maxSpawningEnergy =
             of_int \<lceil>2 * energy cfg * spawningEnergyAdjustment cfg * tankSizeAdjustment\<rceil> \<rparr>)"

text \<open>
  The spike commands with their lengths as numbers; \<open>None\<close> when a length is no number.
\<close>

definition commandLengths :: "spikeCommand list \<Rightarrow> (real \<times> real) list option" where
  "commandLengths cmds =
     those (map (\<lambda>c. map_option (\<lambda>l. (angle_cmd c, real_of_int l)) (length_cmd c)) cmds)"

text \<open>
  \<^verbatim>\<open>initBody\<close>, with the store before the call; it returns the body and the store with the
  new vitals object at its end. The sort by falling length is stable, as
  \<^verbatim>\<open>Array.prototype.sort\<close> is. The result is \<open>None\<close> when the size or a spike length read
  from the genome is no number.
\<close>

definition initBody ::
  "externals \<Rightarrow> genome_settings \<Rightarrow> vitals_settings \<Rightarrow> dynamic_body \<Rightarrow> real \<Rightarrow> nat list \<Rightarrow>
   vitals list \<Rightarrow> (body \<times> vitals list) option" where
  "initBody ext gcfg vcfg dyn t dna store =
     (let dnaCommands = readGenome (rgbToHue ext) gcfg dna in
      case size_cmd dnaCommands of
        None \<Rightarrow> None
      | Some sz \<Rightarrow>
          (case commandLengths (spikes_cmd dnaCommands) of
             None \<Rightarrow> None
           | Some cmds \<Rightarrow>
               (let m = minMass dyn + of_int sz;
                    r = of_int \<lfloor>sqrt (m / pi)\<rfloor>;
                    sps = sort_key (\<lambda>sp. - length_spike sp)
                            (map (\<lambda>(a, l). spawnSpike t r a l) cmds)
                in Some (\<lparr> dna_body = toHex ext dna,
                           fill_body = ''black'',
                           x_body = 0,
                           y_body = 0,
                           mass_body = m,
                           radius_body = r,
                           velocity_body = \<lparr> angle_vel = 0, speed_vel = 0 \<rparr>,
                           vitals_body = length store,
                           spikes_body = sps,
                           meta_body = \<lparr> nextX = 0, nextY = 0, lastCollisionBody = None \<rparr> \<rparr>,
                         store @ [initVitals vcfg m sps]))))"

text \<open>
  \<^verbatim>\<open>replicateParent\<close>, with the store before the call; it returns the child, the store
  after the call and the seed. The parent is only read; its calories are read after
  \<^verbatim>\<open>initBody\<close> has run. The result is \<open>None\<close> when \<^verbatim>\<open>replicateGenome\<close> does not return,
  when \<^verbatim>\<open>initBody\<close> gives no body, or when the mass is zero (the speed bonus divides
  by it).
\<close>

definition replicateParent ::
  "externals \<Rightarrow> genome_settings \<Rightarrow> vitals_settings \<Rightarrow> dynamic_body \<Rightarrow> real \<Rightarrow> vitals list \<Rightarrow>
   body \<Rightarrow> real \<Rightarrow> nat \<Rightarrow> (body \<times> vitals list \<times> nat) option" where
  "replicateParent ext gcfg vcfg dyn t store parent ang seed =
     (case replicateGenome (chunkBy ext) gcfg (toBytes ext (dna_body parent)) seed of
        None \<Rightarrow> None
      | Some (dna, s1) \<Rightarrow>
          (case initBody ext gcfg vcfg dyn t dna store of
             None \<Rightarrow> None
           | Some (body0, store1) \<Rightarrow>
               (let body1 = body0\<lparr> fill_body := fill_body parent \<rparr>;
                    store2 = setCalories_inplace store1 (vitals_body body1)
                               (of_int \<lfloor>calories (store1 ! vitals_body parent) / 2\<rfloor>);
                    relativeLocation = toVector ext ang (2 * radius_body body1);
                    bx = x_body parent + fst relativeLocation;
                    by = y_body parent + snd relativeLocation
                in if mass_body body1 = 0 then None
                   else
                     (case randInt 0 (maxSpawningEnergy dyn / mass_body body1) s1 of
                        (bonus, s2) \<Rightarrow>
                          Some (body1\<lparr> x_body := bx,
                                       y_body := by,
                                       velocity_body :=
                                         \<lparr> angle_vel = ang,
                                           speed_vel = speed_vel (velocity_body parent)
                                                       + of_int bonus \<rparr>,
                                       spikes_body :=
                                         map (getSpikeMover bx by) (spikes_body body1) \<rparr>,
                                store2, s2)))))"

subsection \<open>First generation: the collision helpers\<close>

text \<open>
  The bodies of the first generation carry their angle and speed themselves.
  \<^verbatim>\<open>Math.atan(-y / x)\<close> at \<open>x = 0\<close> is a quarter turn whose sign is that of the
  floating-point zero, or \<^verbatim>\<open>NaN\<close>: \<^verbatim>\<open>mergeVector\<close> is \<open>None\<close> there. \<^verbatim>\<open>collide\<close> is \<open>None\<close>
  when it divides by zero (two bodies at one point, or masses that sum to zero).
\<close>

record collider =
  core_size :: real
  angle_col :: real
  speed_col :: real
  x_col :: real
  y_col :: real

definition getRadians :: "real \<Rightarrow> real" where
  "getRadians turns = turns * pi * 2"

definition breakVector :: "real \<Rightarrow> real \<Rightarrow> real \<times> real" where
  "breakVector ang magnitude =
     (cos (getRadians ang) * magnitude, - sin (getRadians ang) * magnitude)"

definition mergeVector :: "real \<Rightarrow> real \<Rightarrow> (real \<times> real) option" where
  "mergeVector vx vy =
     (if vx = 0 then None
      else
        (let a0 = arctan (- vy / vx) / (2 * pi);
             spd = sqrt (vx * vx + vy * vy);
             a1 = (if a0 < 0 then a0 + 1 else a0);
             a2 = (if vx < 0 \<and> vy < 0 then a1 - 0.5 else a1);
             a3 = (if vx < 0 \<and> vy > 0 then a2 + 0.5 else a2)
         in Some (a3, spd)))"

text \<open>The final normal velocities, as \<^verbatim>\<open>collide\<close> computes them.\<close>

definition normalAfter :: "real \<Rightarrow> real \<Rightarrow> real \<Rightarrow> real \<Rightarrow> real" where
  "normalAfter vn1 vn2 m1 m2 = (vn1 * (m1 - m2) + 2 * m2 * vn2) / (m1 + m2)"

definition collide :: "collider \<Rightarrow> collider \<Rightarrow> (collider \<times> collider) option" where
  "collide body1 body2 =
     (let m1 = core_size body1;
          m2 = core_size body2;
          v1 = breakVector (angle_col body1) (speed_col body1);
          v2 = breakVector (angle_col body2) (speed_col body2);
          n = (x_col body2 - x_col body1, y_col body2 - y_col body1);
          mn = sqrt (fst n * fst n + snd n * snd n)
      in if mn = 0 \<or> m1 + m2 = 0 then None
         else
           (let un = (fst n / mn, snd n / mn);
                ut = (- snd un, fst un);
                vn1 = fst un * fst v1 + snd un * snd v1;
                vt1 = fst ut * fst v1 + snd ut * snd v1;
                vn2 = fst un * fst v2 + snd un * snd v2;
                vt2 = fst ut * fst v2 + snd ut * snd v2;
                vn1_f = normalAfter vn1 vn2 m1 m2;
                vn2_f = normalAfter vn2 vn1 m2 m1;
                w1 = (vn1_f * fst un + vt1 * fst ut, vn1_f * snd un + vt1 * snd ut);
                w2 = (vn2_f * fst un + vt2 * fst ut, vn2_f * snd un + vt2 * snd ut)
            in (case mergeVector (fst w1) (snd w1) of
                  None \<Rightarrow> None
                | Some (a1, s1) \<Rightarrow>
                    (case mergeVector (fst w2) (snd w2) of
                       None \<Rightarrow> None
                     | Some (a2, s2) \<Rightarrow>
                         Some (body1\<lparr> speed_col := s1, angle_col := a1 \<rparr>,
                               body2\<lparr> speed_col := s2, angle_col := a2 \<rparr>)))))"

subsection \<open>The replication pipeline in the words of the specification\<close>

text \<open>
  The stages as the specification words them, for comparison with \<^verbatim>\<open>replicateGenome\<close>:
  each of the 8 bits of a byte is flipped when its roll is below the chance; a byte is
  dropped when its roll is below the chance; a byte is followed by one more copy of itself
  for as long as the rolls stay below the chance; a byte is taken out when its roll is
  below the chance and put back at a random position. The genes get the last three
  stages again with their own chances, and are joined.
\<close>

fun spec_flipBits :: "real \<Rightarrow> nat \<Rightarrow> nat \<Rightarrow> nat \<Rightarrow> nat \<times> nat" where
  "spec_flipBits p 0 byte seed = (byte, seed)"
| "spec_flipBits p (Suc k) byte seed =
     (case rand seed of (r, seed') \<Rightarrow>
        spec_flipBits p k (if r < p then flip_bit k byte else byte) seed')"

fun spec_drop :: "real \<Rightarrow> 'a list \<Rightarrow> nat \<Rightarrow> 'a list \<times> nat" where
  "spec_drop p [] seed = ([], seed)"
| "spec_drop p (x # xs) seed =
     (case rand seed of (r, seed') \<Rightarrow>
        (case spec_drop p xs seed' of (ys, seed'') \<Rightarrow>
           (if r < p then ys else x # ys, seed'')))"

partial_function (option) spec_copies :: "real \<Rightarrow> 'a \<Rightarrow> nat \<Rightarrow> ('a list \<times> nat) option" where
  "spec_copies p x seed =
     (case rand seed of (r, seed') \<Rightarrow>
        (if r < p
         then Option.bind (spec_copies p x seed') (\<lambda>(more, s). Some (x # more, s))
         else Some ([x], seed')))"

fun spec_repeat :: "real \<Rightarrow> 'a list \<Rightarrow> nat \<Rightarrow> ('a list \<times> nat) option" where
  "spec_repeat p [] seed = Some ([], seed)"
| "spec_repeat p (x # xs) seed =
     Option.bind (spec_copies p x seed) (\<lambda>(copies, s).
       Option.bind (spec_repeat p xs s) (\<lambda>(rest, s'). Some (copies @ rest, s')))"

definition markRoll :: "real \<Rightarrow> 'a \<Rightarrow> nat \<Rightarrow> ('a \<times> bool) \<times> nat" where
  "markRoll p x seed = (case rand seed of (r, seed') \<Rightarrow> ((x, r < p), seed'))"

fun spec_reinsert :: "'a list \<Rightarrow> 'a list \<Rightarrow> nat \<Rightarrow> 'a list \<times> nat" where
  "spec_reinsert [] stay seed = (stay, seed)"
| "spec_reinsert (x # moved) stay seed =
     (case randInt 0 (real (length stay)) seed of (k, seed') \<Rightarrow>
        spec_reinsert moved (splice_insert stay k x) seed')"

definition spec_transpose :: "real \<Rightarrow> 'a list \<Rightarrow> nat \<Rightarrow> 'a list \<times> nat" where
  "spec_transpose p xs seed =
     (case mapRand (markRoll p) xs seed of (marked, seed') \<Rightarrow>
        spec_reinsert (map fst (filter snd marked))
                      (map fst (filter (\<lambda>m. \<not> snd m) marked)) seed')"

definition spec_mutate :: "real \<Rightarrow> nat list \<Rightarrow> nat \<Rightarrow> nat list \<times> nat" where
  "spec_mutate p bs seed = mapRand (spec_flipBits p 8) bs seed"

definition replicateGenome_spec ::
  "(nat list \<Rightarrow> (nat list \<Rightarrow> nat list) \<Rightarrow> nat list list) \<Rightarrow> genome_settings \<Rightarrow>
   nat list \<Rightarrow> nat \<Rightarrow> (nat list \<times> nat) option" where
  "replicateGenome_spec segment cfg genome seed =
     (case spec_mutate (chanceMutateBit cfg) genome seed of (flipped, s1) \<Rightarrow>
      case spec_drop (chanceDropByte cfg) flipped s1 of (survivors, s2) \<Rightarrow>
      Option.bind (spec_repeat (chanceRepeatByte cfg) survivors s2) (\<lambda>(repeated, s3).
      case spec_transpose (chanceTransposeByte cfg) repeated s3 of (moved, s4) \<Rightarrow>
      case spec_drop (chanceDropGene cfg) (segment moved findControlIndexes) s4 of (genes, s5) \<Rightarrow>
      Option.bind (spec_repeat (chanceRepeatGene cfg) genes s5) (\<lambda>(repeatedGenes, s6).
      case spec_transpose (chanceTransposeGene cfg) repeatedGenes s6 of (movedGenes, s7) \<Rightarrow>
        Some (concat movedGenes, s7))))"

subsection \<open>A sample configuration\<close>

text \<open>
  \<^verbatim>\<open>settings.js\<close> of the later generation is not among the sources. The sample below
  takes the constants of the earlier generation where it has them (48 genes of 6 bytes
  on average, one bit per unit of mass, two per unit of spike length) and plain values
  elsewhere; the hue of a colour is not computed.
\<close>

definition sampleGenomeSettings :: genome_settings where
  "sampleGenomeSettings =
     \<lparr> volatility = 100, averageGeneCount = 48, averageGeneSize = 6,
       baseChanceMutateBit = 1/2000, baseChanceDropByte = 1/1000,
       baseChanceRepeatByte = 1/1000, baseChanceTransposeByte = 1/1000,
       baseChanceDropGene = 1/100, baseChanceRepeatGene = 1/100,
       baseChanceTransposeGene = 1/100,
       percentSizeGenes = 9, percentSpikeGenes = 1, percentRedGenes = 1,
       percentGreenGenes = 1, percentBlueGenes = 1,
       bitsPerMass = 1, bitsPerSpikeLength = 2 \<rparr>"



definition hexValue :: "char \<Rightarrow> nat" where
  "hexValue c = (case digit36 c of None \<Rightarrow> 0 | Some d \<Rightarrow> d)"

fun sample_toBytes :: "string \<Rightarrow> nat list" where
  "sample_toBytes (a # b # rest) = (16 * hexValue a + hexValue b) # sample_toBytes rest"
| "sample_toBytes rest = []"



definition sampleHue :: "nat \<Rightarrow> nat \<Rightarrow> nat \<Rightarrow> real" where
  "sampleHue r g b = 0"






section \<open>Properties\<close>

subsection \<open>Vitals\<close>

lemma initVitals_invariant:
  "isDead (initVitals cfg mass ls) = (calories (initVitals cfg mass ls) < diesAt (initVitals cfg mass ls))"
  by (simp add: initVitals_def Let_def)

lemma initVitals_old_invariant:
  "isDead_old (initVitals_old mass) = (calories_old (initVitals_old mass) < diesAt_old (initVitals_old mass))"
  by (simp add: initVitals_old_def Let_def)

lemma setCalories_invariant:
  "isDead_old (setCalories v c) = (calories_old (setCalories v c) < diesAt_old (setCalories v c))"
  by (simp add: setCalories_def)

lemma drainCalories_old_invariant:
  "isDead_old (fst (drainCalories_old v d)) =
     (calories_old (fst (drainCalories_old v d)) < diesAt_old (fst (drainCalories_old v d)))"
  by (simp add: drainCalories_old_def Let_def)

lemma drainCalories_frame:
  "isDead (fst (drainCalories v d)) = isDead v \<and> diesAt (fst (drainCalories v d)) = diesAt v"
  by (simp add: drainCalories_def Let_def)

text \<open>
  C5. For every vitals record and every requested amount (negative ones included, so in
  particular for every non-negative one), both generations of \<^verbatim>\<open>drainCalories\<close> take exactly
  \<open>min amount calories\<close> away, leave calories that are not negative, and return the amount
  taken, which is never more than the amount requested.
\<close>

theorem drainCalories_removes_min:
  "calories (fst (drainCalories v amount)) = calories v - min amount (calories v)
   \<and> snd (drainCalories v amount) = min amount (calories v)
   \<and> 0 \<le> calories (fst (drainCalories v amount))
   \<and> snd (drainCalories v amount) \<le> amount
   \<and> calories_old (fst (drainCalories_old w amount)) = calories_old w - min amount (calories_old w)
   \<and> snd (drainCalories_old w amount) = min amount (calories_old w)
   \<and> 0 \<le> calories_old (fst (drainCalories_old w amount))
   \<and> snd (drainCalories_old w amount) \<le> amount"
  by (simp add: drainCalories_def drainCalories_old_def Let_def min_def)

text \<open>
  The later \<^verbatim>\<open>drainCalories\<close> does not keep \<open>isDead = (calories < diesAt)\<close>, as C1 has
  it for every operation: a body of mass 8 starts with 10 calories and dies at 4; after a
  drain of 8 it holds 2 calories, below \<open>diesAt\<close>, and \<open>isDead\<close> is still false.
\<close>

theorem drainCalories_isDead_stale:
  "isDead (initVitals \<lparr> temperature = 30, percentDiesAt = 1/2, percentSpawnsAt = 2,
        baseUpkeepAdjustment = 1, upkeepPerSpike = 1, spikeCountExponent = 1,
        massCalorieExponent = 1, upkeepPerMass = 1 \<rparr> 8 []) = False
   \<and> calories (fst (drainCalories (initVitals \<lparr> temperature = 30, percentDiesAt = 1/2,
        percentSpawnsAt = 2, baseUpkeepAdjustment = 1, upkeepPerSpike = 1, spikeCountExponent = 1,
        massCalorieExponent = 1, upkeepPerMass = 1 \<rparr> 8 []) 8)) = 2
   \<and> diesAt (fst (drainCalories (initVitals \<lparr> temperature = 30, percentDiesAt = 1/2,
        percentSpawnsAt = 2, baseUpkeepAdjustment = 1, upkeepPerSpike = 1, spikeCountExponent = 1,
        massCalorieExponent = 1, upkeepPerMass = 1 \<rparr> 8 []) 8)) = 4
   \<and> isDead (fst (drainCalories (initVitals \<lparr> temperature = 30, percentDiesAt = 1/2,
        percentSpawnsAt = 2, baseUpkeepAdjustment = 1, upkeepPerSpike = 1, spikeCountExponent = 1,
        massCalorieExponent = 1, upkeepPerMass = 1 \<rparr> 8 []) 8)) = False"
  by (simp add: drainCalories_def initVitals_def percentStartsAt_def Let_def)

text \<open>
  C1, amended. \<^verbatim>\<open>initVitals\<close> of both generations, \<^verbatim>\<open>setCalories\<close> and the earlier, copying
  \<^verbatim>\<open>drainCalories\<close> return vitals with \<open>isDead = (calories < diesAt)\<close>. The later,
  in-place \<^verbatim>\<open>drainCalories\<close> takes \<open>min drain calories\<close> from the calories and leaves
  \<open>isDead\<close> and \<open>diesAt\<close> as they were.
\<close>

theorem vitals_invariant_by_operation:
  "isDead (initVitals cfg m sps) = (calories (initVitals cfg m sps) < diesAt (initVitals cfg m sps))
   \<and> isDead_old (initVitals_old m) = (calories_old (initVitals_old m) < diesAt_old (initVitals_old m))
   \<and> isDead_old (setCalories w c) = (calories_old (setCalories w c) < diesAt_old (setCalories w c))
   \<and> isDead_old (fst (drainCalories_old w d))
        = (calories_old (fst (drainCalories_old w d)) < diesAt_old (fst (drainCalories_old w d)))
   \<and> calories (fst (drainCalories v d)) = calories v - min d (calories v)
   \<and> isDead (fst (drainCalories v d)) = isDead v
   \<and> diesAt (fst (drainCalories v d)) = diesAt v"
  using initVitals_invariant [of cfg m sps] initVitals_old_invariant [of m]
    setCalories_invariant [of w c] drainCalories_old_invariant [of w d]
    drainCalories_frame [of v d]
  by (simp add: drainCalories_def Let_def min_def)

subsection \<open>The seeded generator\<close>

lemma nextSeed_less: "nextSeed seed < 2147483647"
  by (simp add: nextSeed_def)

lemma rand_recurrence:
  "snd (rand seed) = (seed * 16807) mod 2147483647
   \<and> fst (rand seed) = real (snd (rand seed)) / 2147483646"
  by (simp add: rand_def nextSeed_def)

lemma rand_range: "0 \<le> fst (rand seed) \<and> fst (rand seed) \<le> 1"
proof -
  have "nextSeed seed \<le> 2147483646"
    using nextSeed_less [of seed] by simp
  then have "real (nextSeed seed) \<le> 2147483646"
    by (metis of_nat_le_iff of_nat_numeral)
  then show ?thesis
    by (simp add: rand_def)
qed

text \<open>
  C3. The recurrence is the code's (lemma \<open>rand_recurrence\<close>), and it reaches the seed
  2147483646, whose output is exactly 1: the generator made from the seed string
  \<^verbatim>\<open>c8gmgn\<close> returns 1 on its first call, outside the half-open interval.
\<close>

theorem rand_returns_one:
  "getPrng ''c8gmgn'' = Some 739806647
   \<and> snd (rand 739806647) = 2147483646
   \<and> fst (rand 739806647) = 1
   \<and> randSeq 739806647 0 = 1
   \<and> randInt 0 10 739806647 = (10, 2147483646)"
  by (simp add: getPrng_def parseInt36_def digit36_def rand_def nextSeed_def randInt_def)

subsection \<open>Reading a genome\<close>

lemma findControlIndexes_empty:
  assumes "\<forall>b\<in>set genome. b < 0xF0"
  shows "findControlIndexes genome = []"
proof -
  have "\<not> genome ! i \<ge> 0xF0" if "i < length genome" for i
    using that assms nth_mem [of i genome] by fastforce
  then show ?thesis
    by (simp add: findControlIndexes_def findIndexes_def filter_empty_conv)
qed

lemma toGenes_empty: "\<forall>b\<in>set genome. b < 0xF0 \<Longrightarrow> toGenes genome = []"
  by (simp add: toGenes_def findControlIndexes_empty)

lemma toGenes_old_empty:
  assumes "\<forall>b\<in>set genome. b < 0xF0"
  shows "toGenes_old genome = []"
proof -
  have "\<not> genome ! i \<ge> 0xF0" if "i < length genome" for i
    using that assms nth_mem [of i genome] by fastforce
  then have "filter (\<lambda>index. index \<noteq> -1)
     (map (\<lambda>i. if genome ! i \<ge> 0xF0 then int i else -1) [0..<length genome]) = []"
    by (simp add: filter_empty_conv)
  then show ?thesis
    by (simp add: toGenes_old_def)
qed

text \<open>
  C9. A genome in which no byte is a control byte (every byte is below \<open>0xF0\<close>) is read
  without error in both generations: the gene list is empty, the size is 0 and there are
  no spikes; in the later generation the three colour censuses are 0, so the hue is that
  of black. The later generation divides by the setting \<^verbatim>\<open>bitsPerMass\<close>, which must not be
  zero for the size to be a number.
\<close>

theorem readGenome_no_control:
  assumes "\<forall>b\<in>set genome. b < 0xF0" and "bitsPerMass cfg \<noteq> 0"
  shows "toGenes genome = [] \<and> size_cmd (readGenome hueOf cfg genome) = Some 0 \<and> spikes_cmd (readGenome hueOf cfg genome) = []
    \<and> countTypeBits 0xF2 (toGenes genome) = 0 \<and> countTypeBits 0xF3 (toGenes genome) = 0 \<and> countTypeBits 0xF4 (toGenes genome) = 0
    \<and> hue_cmd (readGenome hueOf cfg genome) = hueOf 0 0 0
    \<and> toGenes_old genome = [] \<and> size_old (readGenome_old genome) = 0 \<and> spikes_old (readGenome_old genome) = []"
  using assms
  by (simp add: readGenome_def readGenome_old_def toGenes_empty toGenes_old_empty countTypeBits_def floorDiv_def Let_def)
theorem readGenome_no_control_witness:
  "toGenes [1, 2, 3] = []
   \<and> size_cmd (readGenome sampleHue sampleGenomeSettings [1, 2, 3]) = Some 0
   \<and> spikes_cmd (readGenome sampleHue sampleGenomeSettings [1, 2, 3]) = []
   \<and> size_old (readGenome_old [1, 2, 3]) = 0
   \<and> spikes_old (readGenome_old [1, 2, 3]) = []"
  using readGenome_no_control [of "[1, 2, 3]" sampleGenomeSettings sampleHue]
  by (simp add: sampleGenomeSettings_def)

subsection \<open>Transposition\<close>

lemma mset_splice_insert: "mset (splice_insert arr k item) = add_mset item (mset arr)"
proof -
  have "mset (take n arr) + mset (drop n arr) = mset arr" for n
    by (metis append_take_drop_id mset_append)
  then show ?thesis by (simp add: splice_insert_def Let_def)
qed

lemma mset_transposeInsert:
  "mset (fst (transposeInsert toT tr seed)) = mset toT + mset tr"
  by (induction toT arbitrary: tr seed) (auto simp: mset_splice_insert split: prod.splits)

lemma mset_transposeSplit:
  "mset (fst (fst (transposeSplit arr chance tr toT seed))) + mset (snd (fst (transposeSplit arr chance tr toT seed)))
     = mset arr + mset tr + mset toT"
  by (induction arr arbitrary: tr toT seed) (auto split: prod.splits)

lemma mset_transposeItems: "mset (fst (transposeItems arr chance seed)) = mset arr"
proof -
  obtain tr toT s where sp: "transposeSplit arr chance [] [] seed = ((tr, toT), s)"
    by (metis surj_pair)
  have "mset tr + mset toT = mset arr"
    using mset_transposeSplit [of arr chance "[]" "[]" seed] by (simp add: sp)
  then show ?thesis
    by (simp add: transposeItems_def sp mset_transposeInsert add.commute)
qed

lemma mset_concat_perm:
  assumes "mset xs = mset ys"
  shows "mset (concat xs) = mset (concat ys)"
proof -
  have "mset (concat zs) = sum_mset (image_mset mset (mset zs))" for zs :: "'a list list"
    by (induction zs) simp_all
  then show ?thesis using assms by simp
qed

text \<open>
  C10. For every array, every chance and every seed, the array that \<^verbatim>\<open>transposeItems\<close>
  returns has the items of its input with their multiplicities; so the gene stage keeps
  the bytes of the joined genes as well: the two transposition stages of
  \<^verbatim>\<open>replicateGenome\<close> only move bytes.
\<close>

theorem transposeItems_perm:
  "mset (fst (transposeItems arr chance seed)) = mset arr
   \<and> mset (concat (fst (transposeItems genes chance seed))) = mset (concat genes)"
proof -
  have "mset (fst (transposeItems genes chance seed)) = mset genes"
    by (rule mset_transposeItems)
  then have "mset (concat (fst (transposeItems genes chance seed))) = mset (concat genes)"
    by (rule mset_concat_perm)
  then show ?thesis by (simp add: mset_transposeItems)
qed

subsection \<open>Random genomes\<close>

lemma rand_range': "rand seed = (r, s') \<Longrightarrow> 0 \<le> r \<and> r \<le> 1"
  using rand_range [of seed] by simp

lemma randInt_bounds:
  assumes "real_of_int lo \<le> hi"
  shows "lo \<le> fst (randInt lo hi seed) \<and> real_of_int (fst (randInt lo hi seed)) \<le> hi"
proof -
  obtain r s' where rs: "rand seed = (r, s')" by (metis surj_pair)
  have r: "0 \<le> r" "r \<le> 1" using rand_range' [OF rs] by simp_all
  have d: "0 \<le> hi - of_int lo" using assms by simp
  have lower: "0 \<le> r * (hi - of_int lo)" using r d by simp
  have upper: "r * (hi - of_int lo) \<le> hi - of_int lo"
    using r d by (simp add: mult_left_le_one_le)
  have f0: "0 \<le> \<lfloor>r * (hi - of_int lo)\<rfloor>" using lower by simp
  have "real_of_int \<lfloor>r * (hi - of_int lo)\<rfloor> \<le> r * (hi - of_int lo)" by simp
  then have f1: "real_of_int \<lfloor>r * (hi - of_int lo)\<rfloor> \<le> hi - of_int lo" using upper by linarith
  show ?thesis using f0 f1 by (simp add: randInt_def rs)
qed

lemma length_mapRand: "length (fst (mapRand f xs seed)) = length xs"
proof (induction xs arbitrary: seed)
  case Nil
  then show ?case by simp
next
  case (Cons x xs)
  obtain y s1 where f: "f x seed = (y, s1)" by (metis surj_pair)
  obtain ys s2 where m: "mapRand f xs s1 = (ys, s2)" by (metis surj_pair)
  have "length ys = length xs" using Cons.IH [of s1] by (simp add: m)
  then show ?case by (simp add: f m)
qed

lemma set_mapRand:
  assumes "\<And>x s. P (fst (f x s))"
  shows "\<forall>y\<in>set (fst (mapRand f xs seed)). P y"
proof (induction xs arbitrary: seed)
  case Nil
  then show ?case by simp
next
  case (Cons x xs)
  obtain y s1 where f: "f x seed = (y, s1)" by (metis surj_pair)
  obtain ys s2 where m: "mapRand f xs s1 = (ys, s2)" by (metis surj_pair)
  have "P y" using assms [of x seed] by (simp add: f)
  moreover have "\<forall>y\<in>set ys. P y" using Cons.IH [of s1] by (simp add: m)
  ultimately show ?case by (simp add: f m)
qed

lemma controlByteRolls_bytes: "map fst (controlByteRolls cfg) = [0xF0, 0xF1, 0xF2, 0xF3, 0xF4]"
  by (simp add: controlByteRolls_def BYTES_def upt_conv_Cons)

lemma randControlByte_control:
  "fst (randControlByte cfg seed) \<in> {0xF0, 0xF1, 0xF2, 0xF3, 0xF4}"
proof -
  obtain r s' where rs: "rand seed = (r, s')" by (metis surj_pair)
  have len: "length (controlByteRolls cfg) = 5"
  proof -
    have "length (map fst (controlByteRolls cfg)) = 5"
      by (simp only: controlByteRolls_bytes) simp
    then show ?thesis by simp
  qed
  have mem: "e \<in> set (controlByteRolls cfg) \<Longrightarrow> fst e \<in> {0xF0, 0xF1, 0xF2, 0xF3, 0xF4}" for e
  proof -
    assume "e \<in> set (controlByteRolls cfg)"
    then have "fst e \<in> set (map fst (controlByteRolls cfg))" by simp
    then show ?thesis by (simp add: controlByteRolls_bytes)
  qed
  show ?thesis
  proof (cases "find (\<lambda>(byte, maxRoll). r < maxRoll) (controlByteRolls cfg)")
    case None
    have "controlByteRolls cfg ! (length (controlByteRolls cfg) - 1) \<in> set (controlByteRolls cfg)"
      using len by simp
    then show ?thesis using None mem by (simp add: randControlByte_def rs)
  next
    case (Some e)
    then have "e \<in> set (controlByteRolls cfg)"
      by (metis find_Some_iff nth_mem)
    then show ?thesis using Some mem by (simp add: randControlByte_def rs)
  qed
qed


lemma randGene_shape:
  assumes "1 \<le> maxGeneSize cfg"
  shows "\<exists>c body. fst (randGene cfg seed) = int c # body \<and> c \<in> {0xF0, 0xF1, 0xF2, 0xF3, 0xF4}
           \<and> 1 \<le> length body \<and> real (length body) \<le> maxGeneSize cfg"
proof -
  obtain n s1 where n: "randInt 1 (maxGeneSize cfg) seed = (n, s1)" by (metis surj_pair)
  obtain body s2 where b: "mapRand (\<lambda>_. randInt 0 256) (range n) s1 = (body, s2)" by (metis surj_pair)
  obtain c s3 where c: "randControlByte cfg s2 = (c, s3)" by (metis surj_pair)
  have nb: "1 \<le> n" "real_of_int n \<le> maxGeneSize cfg"
    using randInt_bounds [of 1 "maxGeneSize cfg" seed] assms by (simp_all add: n)
  have "length (fst (mapRand (\<lambda>_. randInt 0 256) (range n) s1)) = length (range n)"
    by (rule length_mapRand)
  then have "length body = length (range n)"
    by (simp add: b)
  then have "length body = nat n"
    by (simp add: range_def)
  then have lb: "1 \<le> length body" "real (length body) \<le> maxGeneSize cfg"
    using nb by simp_all
  have "c \<in> {0xF0, 0xF1, 0xF2, 0xF3, 0xF4}"
    using randControlByte_control [of cfg s2] by (simp add: c)
  then show ?thesis using lb by (simp add: randGene_def n b c)
qed

lemma createGenes_shape:
  assumes "1 \<le> maxGeneCount cfg" and "1 \<le> maxGeneSize cfg"
  shows "1 \<le> length (fst (createGenes cfg seed))
         \<and> real (length (fst (createGenes cfg seed))) \<le> maxGeneCount cfg
         \<and> (\<forall>g\<in>set (fst (createGenes cfg seed)).
              \<exists>c body. g = int c # body \<and> c \<in> {0xF0, 0xF1, 0xF2, 0xF3, 0xF4}
                 \<and> 1 \<le> length body \<and> real (length body) \<le> maxGeneSize cfg)"
proof -
  obtain n s1 where n: "randInt 1 (maxGeneCount cfg) seed = (n, s1)" by (metis surj_pair)
  have nb: "1 \<le> n" "real_of_int n \<le> maxGeneCount cfg"
    using randInt_bounds [of 1 "maxGeneCount cfg" seed] assms(1) by (simp_all add: n)
  have g: "fst (createGenes cfg seed) = fst (mapRand (\<lambda>_. randGene cfg) (range n) s1)"
    by (simp add: createGenes_def n)
  have "length (fst (createGenes cfg seed)) = nat n"
    by (simp add: g length_mapRand range_def)
  then have l: "1 \<le> length (fst (createGenes cfg seed))"
      "real (length (fst (createGenes cfg seed))) \<le> maxGeneCount cfg"
    using nb by simp_all
  have "\<forall>g\<in>set (fst (mapRand (\<lambda>_. randGene cfg) (range n) s1)).
          \<exists>c body. g = int c # body \<and> c \<in> {0xF0, 0xF1, 0xF2, 0xF3, 0xF4}
             \<and> 1 \<le> length body \<and> real (length body) \<le> maxGeneSize cfg"
    by (rule set_mapRand) (rule randGene_shape [OF assms(2)])
  then show ?thesis using l by (simp add: g)
qed

lemma toUint8_less: "toUint8 n < 256"
  by (simp add: toUint8_def nat_less_iff)

text \<open>
  C8. When the settings allow at least one gene and one body byte
  (\<open>1 \<le> maxGeneCount\<close>, \<open>1 \<le> maxGeneSize\<close>), every genome that the later
  \<^verbatim>\<open>createGenome\<close> produces, from any seed, is the concatenation of between 1 and
  \<open>maxGeneCount\<close> genes in the order they were drawn, and each gene is one control byte
  (a byte from \<open>0xF0\<close> up) followed by between 1 and \<open>maxGeneSize\<close> body bytes.
\<close>

theorem createGenome_genes:
  assumes "1 \<le> maxGeneCount cfg" and "1 \<le> maxGeneSize cfg"
  shows "\<exists>genes. fst (createGenome cfg seed) = concat genes
           \<and> 1 \<le> length genes \<and> real (length genes) \<le> maxGeneCount cfg
           \<and> (\<forall>g\<in>set genes. \<exists>c body. g = c # body \<and> 0xF0 \<le> c \<and> c \<le> 0xFF
                 \<and> 1 \<le> length body \<and> real (length body) \<le> maxGeneSize cfg
                 \<and> (\<forall>b\<in>set body. b < 256))"
proof -
  let ?raw = "fst (createGenes cfg seed)"
  let ?genes = "map (map toUint8) ?raw"
  have c: "fst (createGenome cfg seed) = concat ?genes"
    by (simp add: createGenome_def Uint8Array_from_def flatten_def map_concat split: prod.splits)
  have sh: "1 \<le> length ?raw" "real (length ?raw) \<le> maxGeneCount cfg"
    "\<forall>g\<in>set ?raw. \<exists>c body. g = int c # body \<and> c \<in> {0xF0, 0xF1, 0xF2, 0xF3, 0xF4}
         \<and> 1 \<le> length body \<and> real (length body) \<le> maxGeneSize cfg"
    using createGenes_shape [OF assms, of seed] by simp_all
  have each: "\<exists>c body. g = c # body \<and> 0xF0 \<le> c \<and> c \<le> 0xFF
                 \<and> 1 \<le> length body \<and> real (length body) \<le> maxGeneSize cfg
                 \<and> (\<forall>b\<in>set body. b < 256)" if "g \<in> set ?genes" for g
  proof -
    from that obtain r where r: "r \<in> set ?raw" "g = map toUint8 r" by auto
    then obtain c body where cb: "r = int c # body" "c \<in> {0xF0, 0xF1, 0xF2, 0xF3, 0xF4}"
        "1 \<le> length body" "real (length body) \<le> maxGeneSize cfg"
      using sh(3) by blast
    have tc: "toUint8 (int c) = c" using cb(2) by (auto simp: toUint8_def)
    have "g = c # map toUint8 body" using r(2) cb(1) tc by simp
    moreover have "0xF0 \<le> c \<and> c \<le> 0xFF" using cb(2) by auto
    moreover have "\<forall>b\<in>set (map toUint8 body). b < 256" by (simp add: toUint8_less)
    ultimately show ?thesis using cb(3,4) by simp
  qed
  show ?thesis
    apply (rule exI [of _ ?genes])
    using c sh(1,2) each by simp
qed

theorem createGenome_genes_witness:
  "\<exists>genes. fst (createGenome sampleGenomeSettings 1) = concat genes
      \<and> 1 \<le> length genes \<and> real (length genes) \<le> 96
      \<and> list_all (\<lambda>g. \<exists>c body. g = c # body \<and> 0xF0 \<le> c \<and> c \<le> 0xFF
             \<and> 1 \<le> length body \<and> real (length body) \<le> 12
             \<and> list_all (\<lambda>b. b < 256) body) genes"
proof -
  have c: "maxGeneCount sampleGenomeSettings = 96" and z: "maxGeneSize sampleGenomeSettings = 12"
    by (simp_all add: maxGeneCount_def maxGeneSize_def sampleGenomeSettings_def)
  have "1 \<le> maxGeneCount sampleGenomeSettings" and "1 \<le> maxGeneSize sampleGenomeSettings"
    by (simp_all add: c z)
  from createGenome_genes [OF this, of 1] show ?thesis
    by (simp only: c z list_all_iff)
qed

lemma randGene_old_hd:
  "\<exists>body. fst (randGene_old seed) =
     map_option int (at_index CONTROL_BYTE_FREQUENCY
        (fst (randInt 0 (real (length CONTROL_BYTE_FREQUENCY)) seed))) # body"
  by (simp add: randGene_old_def split: prod.splits)

lemma createGenome_old_hd:
  assumes "1 \<le> fst (randInt 1 MAX_GENES seed)"
  shows "hd (fst (createGenome_old seed)) =
     (case at_index CONTROL_BYTE_FREQUENCY
             (fst (randInt 0 (real (length CONTROL_BYTE_FREQUENCY)) (snd (randInt 1 MAX_GENES seed)))) of
        None \<Rightarrow> 0
      | Some b \<Rightarrow> toUint8 (int b))"
proof -
  obtain n s1 where n: "randInt 1 MAX_GENES seed = (n, s1)" by (metis surj_pair)
  have "0 < nat n" using assms by (simp add: n)
  then have r: "range n = 0 # [Suc 0..<nat n]"
    by (simp add: range_def upt_conv_Cons)
  obtain g s2 where g: "randGene_old s1 = (g, s2)" by (metis surj_pair)
  obtain gs s3 where gs: "mapRand (\<lambda>_. randGene_old) [Suc 0..<nat n] s2 = (gs, s3)" by (metis surj_pair)
  obtain body where b: "g = map_option int (at_index CONTROL_BYTE_FREQUENCY
        (fst (randInt 0 (real (length CONTROL_BYTE_FREQUENCY)) s1))) # body"
    using randGene_old_hd [of s1] by (auto simp: g)
  have "fst (createGenome_old seed) = Uint8Array_from_opt (flatten (g # gs))"
    by (simp add: createGenome_old_def createGenes_old_def n r g gs)
  then show ?thesis
    by (simp add: b n flatten_def Uint8Array_from_opt_def split: option.splits)
qed

text \<open>
  In the earlier generation the control byte is read from the ten-entry table at
  \<^verbatim>\<open>randInt(0, 10)\<close>, and \<^verbatim>\<open>randInt\<close> returns 10 when \<^verbatim>\<open>rand()\<close> returns 1. The
  generator made from the seed string \<^verbatim>\<open>b40mbv\<close> does so on its second call: the table
  gives \<^verbatim>\<open>undefined\<close>, and the genome starts with the byte 0, which is no control byte.
  The later generation falls back to the last table entry instead.
\<close>

lemma createGenome_old_first_byte:
  "getPrng ''b40mbv'' = Some 671875339 \<and> hd (fst (createGenome_old 671875339)) = 0"
proof -
  have a: "randInt 1 MAX_GENES 671875339 = (33, 739806647)"
    by (simp add: randInt_def rand_def nextSeed_def MAX_GENES_def)
  have b: "randInt 0 (real (length CONTROL_BYTE_FREQUENCY)) 739806647 = (10, 2147483646)"
    by (simp add: randInt_def rand_def nextSeed_def CONTROL_BYTE_FREQUENCY_def)
  have c: "at_index CONTROL_BYTE_FREQUENCY 10 = None"
    by (simp add: at_index_def CONTROL_BYTE_FREQUENCY_def)
  have "hd (fst (createGenome_old 671875339)) = 0"
    using createGenome_old_hd [of 671875339] by (simp add: a b c)
  moreover have "getPrng ''b40mbv'' = Some 671875339"
    by (simp add: getPrng_def parseInt36_def digit36_def)
  ultimately show ?thesis by simp
qed

subsection \<open>Replication\<close>

lemma parseInt2_foldl:
  "foldl (\<lambda>acc c. 2 * acc + (if c = CHR ''1'' then 1 else 0)) a bits
     = a * 2 ^ length bits + foldl (\<lambda>acc c. 2 * acc + (if c = CHR ''1'' then 1 else (0::nat))) 0 bits"
proof (induction bits arbitrary: a)
  case Nil
  then show ?case by simp
next
  case (Cons b bits)
  let ?f = "\<lambda>acc c. 2 * acc + (if c = CHR ''1'' then 1 else (0::nat))"
  define d :: nat where "d = (if b = CHR ''1'' then 1 else 0)"
  have "foldl ?f a (b # bits) = foldl ?f (2 * a + d) bits"
    by (simp add: d_def)
  also have "\<dots> = (2 * a + d) * 2 ^ length bits + foldl ?f 0 bits"
    by (rule Cons.IH)
  finally have lhs: "foldl ?f a (b # bits) = (2 * a + d) * 2 ^ length bits + foldl ?f 0 bits" .
  have "foldl ?f 0 (b # bits) = foldl ?f d bits"
    by (simp add: d_def)
  also have "\<dots> = d * 2 ^ length bits + foldl ?f 0 bits"
    by (rule Cons.IH)
  finally have rhs: "foldl ?f 0 (b # bits) = d * 2 ^ length bits + foldl ?f 0 bits" .
  show ?case
    unfolding lhs rhs by (simp add: algebra_simps)
qed

lemma parseInt2_Cons:
  "parseInt2 (b # bits) = (if b = CHR ''1'' then 1 else 0) * 2 ^ length bits + parseInt2 bits"
  using parseInt2_foldl [of "(if b = CHR ''1'' then 1 else 0)" bits]
  by (simp add: parseInt2_def)

lemma parseInt2_less: "parseInt2 bits < 2 ^ length bits"
proof (induction bits)
  case Nil
  then show ?case by (simp add: parseInt2_def)
next
  case (Cons b bits)
  then show ?case by (simp add: parseInt2_Cons)
qed

lemma xor_high_bit:
  fixes byte m :: nat
  assumes "m < 2 ^ k"
  shows "byte XOR (2 ^ k + m) = flip_bit k byte XOR m"
proof -
  have "\<not> bit m k" using assms by (simp add: bit_iff_odd)
  then have "2 ^ k AND m = 0"
    by (metis and.commute and_exp_eq_0_iff_not_bit)
  then have "2 ^ k + m = 2 ^ k XOR m" by (rule disjunctive_add_eq_xor)
  then show ?thesis by (simp add: flip_bit_nat_def xor.assoc)
qed

lemma flipBits_mask:
  "spec_flipBits p (length xs) byte seed =
     (case mapRand (randBit p) xs seed of (bits, s') \<Rightarrow> (byte XOR parseInt2 bits, s'))"
proof (induction xs arbitrary: byte seed)
  case Nil
  then show ?case by (simp add: parseInt2_def)
next
  case (Cons x xs)
  obtain r s1 where r: "rand seed = (r, s1)" by (metis surj_pair)
  obtain bits s2 where m: "mapRand (randBit p) xs s1 = (bits, s2)" by (metis surj_pair)
  have l: "length bits = length xs"
    using length_mapRand [of "randBit p" xs s1] by (simp add: m)
  have ih: "spec_flipBits p (length xs) b s1 = (b XOR parseInt2 bits, s2)" for b
    using Cons.IH [of b s1] by (simp add: m)
  have rb: "randBit p x seed = (if r < p then CHR ''1'' else CHR ''0'', s1)"
    by (simp add: randBit_def r)
  show ?case
  proof (cases "r < p")
    case True
    have "byte XOR parseInt2 (CHR ''1'' # bits) = flip_bit (length xs) byte XOR parseInt2 bits"
      using xor_high_bit [OF parseInt2_less [of bits], of byte] by (simp add: parseInt2_Cons l)
    then show ?thesis using True by (simp add: r rb m ih)
  next
    case False
    then show ?thesis by (simp add: r rb m ih parseInt2_Cons)
  qed
qed

lemma mutateBitsWith_spec: "mutateBitsWith p byte seed = spec_flipBits p 8 byte seed"
  using flipBits_mask [of p "range 8" byte seed] by (simp add: mutateBitsWith_def range_def)

lemma mapRand_cong: "(\<And>x s. f x s = g x s) \<Longrightarrow> mapRand f xs seed = mapRand g xs seed"
  by (induction xs arbitrary: seed) simp_all

lemma filterRand_spec: "filterRand (keepRoll p) xs seed = spec_drop p xs seed"
proof (induction xs arbitrary: seed)
  case Nil
  then show ?case by simp
next
  case (Cons x xs)
  obtain r s1 where r: "rand seed = (r, s1)" by (metis surj_pair)
  have k: "keepRoll p x seed = (\<not> r < p, s1)"
    by (simp add: keepRoll_def r not_less)
  obtain ys s2 where ys: "spec_drop p xs s1 = (ys, s2)" by (metis surj_pair)
  show ?case by (simp add: k r Cons.IH ys)
qed

lemma spec_repeat_step:
  assumes "rand seed = (r, s')"
  shows "spec_repeat p (x # xs) seed =
     (if r < p then map_option (\<lambda>(out, s). (x # out, s)) (spec_repeat p (x # xs) s')
      else map_option (\<lambda>(out, s). (x # out, s)) (spec_repeat p xs s'))"
proof (cases "r < p")
  case True
  have c: "spec_copies p x seed = Option.bind (spec_copies p x s') (\<lambda>(more, s). Some (x # more, s))"
    by (subst spec_copies.simps) (simp add: assms True)
  show ?thesis
  proof (cases "spec_copies p x s'")
    case None
    then show ?thesis using True by (simp add: c)
  next
    case (Some a)
    obtain more s1 where a: "a = (more, s1)" by (metis surj_pair)
    show ?thesis
      using True by (cases "spec_repeat p xs s1") (auto simp: c Some a)
  qed
next
  case False
  have c: "spec_copies p x seed = Some ([x], s')"
    by (subst spec_copies.simps) (simp add: assms False)
  show ?thesis
    using False by (cases "spec_repeat p xs s'") (auto simp: c)
qed

lemma repeatLoop_imp_spec:
  assumes "repeatLoop arr p i acc seed = Some y"
  shows "map_option (\<lambda>(out, s). (acc @ out, s)) (spec_repeat p (drop i arr) seed) = Some y"
proof (rule repeatLoop.raw_induct
    [where P = "\<lambda>arr p i acc seed y.
       map_option (\<lambda>(out, s). (acc @ out, s)) (spec_repeat p (drop i arr) seed) = Some y",
     OF _ assms], goal_cases)
  case (1 loop arr p i acc seed y)
  show ?case
  proof (cases "i < length arr")
    case False
    then show ?thesis using 1(2) by simp
  next
    case True
    obtain r s' where r: "rand seed = (r, s')" by (metis surj_pair)
    have d: "drop i arr = arr ! i # drop (i + 1) arr"
      using True by (simp add: Cons_nth_drop_Suc)
    have call: "loop arr p (if r < p then i else i + 1) (acc @ [arr ! i]) s' = Some y"
      using 1(2) True by (simp add: r)
    have ih: "map_option (\<lambda>(out, s). ((acc @ [arr ! i]) @ out, s))
                (spec_repeat p (drop (if r < p then i else i + 1) arr) s') = Some y"
      by (rule 1(1) [OF call])
    have step: "spec_repeat p (drop i arr) seed =
        map_option (\<lambda>(out, s). (arr ! i # out, s))
          (spec_repeat p (drop (if r < p then i else i + 1) arr) s')"
    proof (cases "r < p")
      case True
      have "spec_repeat p (arr ! i # drop (i + 1) arr) seed =
          map_option (\<lambda>(out, s). (arr ! i # out, s)) (spec_repeat p (arr ! i # drop (i + 1) arr) s')"
        using spec_repeat_step [OF r, of p "arr ! i" "drop (i + 1) arr"] True by simp
      then show ?thesis using True by (simp only: d if_True)
    next
      case False
      have "spec_repeat p (arr ! i # drop (i + 1) arr) seed =
          map_option (\<lambda>(out, s). (arr ! i # out, s)) (spec_repeat p (drop (i + 1) arr) s')"
        using spec_repeat_step [OF r, of p "arr ! i" "drop (i + 1) arr"] False by simp
      then show ?thesis using False by (simp only: d if_False)
    qed
    show ?thesis
      using ih unfolding step
      by (simp add: option.map_comp comp_def case_prod_unfold del: spec_repeat.simps)
  qed
qed

lemma spec_copies_imp_loop:
  assumes "spec_copies p x seed = Some (c, s)"
  shows "\<forall>arr i acc. i < length arr \<and> arr ! i = x \<longrightarrow>
           repeatLoop arr p i acc seed = repeatLoop arr p (i + 1) (acc @ c) s"
proof -
  have "(case ((p, x), seed) of (a, sd) \<Rightarrow> (case a of (p, x) \<Rightarrow>
          \<lambda>sd y. \<forall>arr i acc. i < length arr \<and> arr ! i = x \<longrightarrow>
             repeatLoop arr p i acc sd = repeatLoop arr p (i + 1) (acc @ fst y) (snd y)) sd) (c, s)"
  proof (rule spec_copies.raw_induct
      [where P = "\<lambda>p x sd y. \<forall>arr i acc. i < length arr \<and> arr ! i = x \<longrightarrow>
             repeatLoop arr p i acc sd = repeatLoop arr p (i + 1) (acc @ fst y) (snd y)"], goal_cases)
    case (1 copies p x seed y)
    obtain r s' where r: "rand seed = (r, s')" by (metis surj_pair)
    show ?case
    proof (intro allI impI)
      fix arr :: "'a list" and i acc
      assume a: "i < length arr \<and> arr ! i = x"
      have unfold: "repeatLoop arr p i acc seed =
          repeatLoop arr p (if r < p then i else i + 1) (acc @ [x]) s'"
        by (subst repeatLoop.simps) (simp add: a r)
      show "repeatLoop arr p i acc seed = repeatLoop arr p (i + 1) (acc @ fst y) (snd y)"
      proof (cases "r < p")
        case True
        then obtain more s1 where m: "copies p x s' = Some (more, s1)" "y = (x # more, s1)"
          using 1(2) by (auto simp: r bind_eq_Some_conv)
        have "repeatLoop arr p i (acc @ [x]) s' = repeatLoop arr p (i + 1) ((acc @ [x]) @ fst (more, s1)) (snd (more, s1))"
          using 1(1) [OF m(1)] a by blast
        then show ?thesis using True by (simp add: unfold m(2))
      next
        case False
        then have "y = ([x], s')" using 1(2) by (simp add: r)
        then show ?thesis using False by (simp add: unfold)
      qed
    qed
  next
    case 2
    show ?case using assms by simp
  qed
  then show ?thesis by simp
qed

lemma spec_imp_repeatLoop:
  assumes "spec_repeat p xs seed = Some (out, s)" and "xs = drop i arr"
  shows "repeatLoop arr p i acc seed = Some (acc @ out, s)"
  using assms
proof (induction xs arbitrary: i acc seed out)
  case Nil
  then have "\<not> i < length arr" by simp
  then have "repeatLoop arr p i acc seed = Some (acc, seed)"
    by (subst repeatLoop.simps) simp
  then show ?case using Nil by simp
next
  case (Cons x xs)
  have i: "i < length arr"
    using Cons.prems(2) by (metis drop_all list.distinct(1) not_less)
  have d: "drop i arr = arr ! i # drop (i + 1) arr"
    using i by (simp add: Cons_nth_drop_Suc)
  have x: "arr ! i = x" and xs: "xs = drop (i + 1) arr"
    using Cons.prems(2) d by simp_all
  obtain c s1 rest where c: "spec_copies p x seed = Some (c, s1)"
      and rest: "spec_repeat p xs s1 = Some (rest, s)" and out: "out = c @ rest"
    using Cons.prems(1) by (auto simp: bind_eq_Some_conv)
  have "repeatLoop arr p i acc seed = repeatLoop arr p (i + 1) (acc @ c) s1"
    using spec_copies_imp_loop [OF c] i x by blast
  also have "\<dots> = Some ((acc @ c) @ rest, s)"
    by (rule Cons.IH [OF rest xs])
  finally show ?case by (simp add: out)
qed

lemma repeatItems_spec: "repeatItems arr p seed = spec_repeat p arr seed"
proof (cases "repeatItems arr p seed")
  case None
  show ?thesis
  proof (cases "spec_repeat p arr seed")
    case None
    then show ?thesis using \<open>repeatItems arr p seed = None\<close> by simp
  next
    case (Some a)
    obtain out s where a: "a = (out, s)" by (metis surj_pair)
    have "repeatLoop arr p 0 [] seed = Some ([] @ out, s)"
      by (rule spec_imp_repeatLoop [where xs = arr]) (simp_all add: Some a)
    then show ?thesis using None by (simp add: repeatItems_def)
  qed
next
  case (Some y)
  then have "map_option (\<lambda>(out, s). ([] @ out, s)) (spec_repeat p (drop 0 arr) seed) = Some y"
    by (intro repeatLoop_imp_spec) (simp add: repeatItems_def)
  then have "spec_repeat p arr seed = Some y"
    by (cases "spec_repeat p arr seed") auto
  then show ?thesis using Some by simp
qed

lemma transposeInsert_spec: "transposeInsert toT tr seed = spec_reinsert toT tr seed"
  by (induction toT arbitrary: tr seed) (simp_all split: prod.splits)

lemma transposeSplit_marks:
  "transposeSplit xs p tr toT seed =
     (case mapRand (markRoll p) xs seed of (marked, s') \<Rightarrow>
        ((tr @ map fst (filter (\<lambda>m. \<not> snd m) marked), toT @ map fst (filter snd marked)), s'))"
proof (induction xs arbitrary: tr toT seed)
  case Nil
  then show ?case by simp
next
  case (Cons x xs)
  obtain r s1 where r: "rand seed = (r, s1)" by (metis surj_pair)
  have mr: "markRoll p x seed = ((x, r < p), s1)"
    by (simp add: markRoll_def r)
  obtain marked s2 where m: "mapRand (markRoll p) xs s1 = (marked, s2)" by (metis surj_pair)
  show ?case
    by (cases "r < p") (simp_all add: r mr m Cons.IH)
qed

lemma transposeItems_spec: "transposeItems xs p seed = spec_transpose p xs seed"
proof -
  obtain marked s1 where m: "mapRand (markRoll p) xs seed = (marked, s1)" by (metis surj_pair)
  have "transposeSplit xs p [] [] seed =
      ((map fst (filter (\<lambda>m. \<not> snd m) marked), map fst (filter snd marked)), s1)"
    by (simp add: transposeSplit_marks m)
  then show ?thesis
    by (simp add: transposeItems_def spec_transpose_def m transposeInsert_spec)
qed

lemma mutate_stage_spec: "mapRand (mutateBits cfg) genome seed = spec_mutate (chanceMutateBit cfg) genome seed"
  unfolding spec_mutate_def
  by (rule mapRand_cong) (simp add: mutateBits_def mutateBitsWith_spec)

lemma repeatLoop_never:
  assumes "chance \<le> 0"
  shows "repeatLoop arr chance i acc seed = Some (acc @ drop i arr, (nextSeed ^^ (length arr - i)) seed)"
proof (induction "length arr - i" arbitrary: i acc seed)
  case 0
  then have "\<not> i < length arr" by simp
  then show ?case using 0 by (subst repeatLoop.simps) simp
next
  case (Suc n)
  then have i: "i < length arr" by simp
  have r: "\<not> fst (rand seed) < chance"
    using rand_range [of seed] assms by simp
  have n: "n = length arr - (i + 1)" using Suc(2) by simp
  have "repeatLoop arr chance i acc seed
      = repeatLoop arr chance (i + 1) (acc @ [arr ! i]) (snd (rand seed))"
    using i r by (subst repeatLoop.simps) (simp add: case_prod_unfold)
  also have "\<dots> = Some ((acc @ [arr ! i]) @ drop (i + 1) arr,
      (nextSeed ^^ (length arr - (i + 1))) (snd (rand seed)))"
    by (rule Suc(1) [OF n])
  also have "(acc @ [arr ! i]) @ drop (i + 1) arr = acc @ drop i arr"
    using i by (simp add: Cons_nth_drop_Suc)
  also have "(nextSeed ^^ (length arr - (i + 1))) (snd (rand seed)) = (nextSeed ^^ (length arr - i)) seed"
  proof -
    have "length arr - i = Suc (length arr - (i + 1))" using i by simp
    then show ?thesis by (simp add: rand_def funpow_swap1)
  qed
  finally show ?case .
qed

text \<open>
  With repeat chances that are not positive no roll is below the chance: the repeat
  stages end, and \<^verbatim>\<open>replicateGenome\<close> returns.
\<close>

lemma replicateGenome_returns:
  assumes "chanceRepeatByte cfg \<le> 0" and "chanceRepeatGene cfg \<le> 0"
  shows "\<exists>y. replicateGenome segment cfg genome seed = Some y"
  by (simp add: replicateGenome_def repeatItems_def repeatLoop_never [OF assms(1)]
      repeatLoop_never [OF assms(2)] split: prod.splits)

text \<open>
  C2. The later \<^verbatim>\<open>replicateGenome\<close> is the pipeline of the specification, stage by stage
  and in its order, on every genome, configuration and seed: bit flips, byte drop, byte
  repeat, byte transposition, segmentation at the control positions, gene drop, gene
  repeat, gene transposition, concatenation. Both sides are \<open>None\<close> when a repeat stage
  does not end.
\<close>

theorem replicateGenome_pipeline:
  "replicateGenome segment cfg genome seed = replicateGenome_spec segment cfg genome seed"
  unfolding replicateGenome_def replicateGenome_spec_def
    mutate_stage_spec filterRand_spec repeatItems_spec transposeItems_spec
    joinGeneArray_def concatBytes_def
  by (simp split: prod.splits option.splits)

lemma replicateGenome_old_first_stage:
  "replicateGenome_old genome seed = spec_mutate MUTATE_BIT_CHANCE genome seed"
  unfolding spec_mutate_def replicateGenome_old_def
  by (rule mapRand_cong) (simp add: mutateBits_old_def mutateBitsWith_spec)

subsection \<open>Spikes\<close>

text \<open>
  C6. For every temperature, radius, angle and positive length, the later \<^verbatim>\<open>spawnSpike\<close>
  sets the drain to \<open>BASE_DRAIN / length powr 1.2\<close>, where \<open>BASE_DRAIN\<close> is
  \<open>25000 * max 0 temperature / 30\<close>; at a positive temperature a shorter spike (of positive
  length) drains strictly more than a longer one, whatever their radii and angles.
\<close>

theorem spawnSpike_drain:
  assumes "0 < len"
  shows "drain_spike (spawnSpike t r a len)
           = Some (BASE_DRAIN t / (len powr DRAIN_LENGTH_QUOTIENT))
         \<and> BASE_DRAIN t = 25000 * max 0 t / 30
         \<and> DRAIN_LENGTH_QUOTIENT = 1.2
         \<and> (0 < t \<and> 0 < shorter \<and> shorter < len \<longrightarrow>
               the (drain_spike (spawnSpike t r a len))
                 < the (drain_spike (spawnSpike t r' a' shorter)))"
proof -
  have mono: "BASE_DRAIN t / (len powr DRAIN_LENGTH_QUOTIENT)
        < BASE_DRAIN t / (shorter powr DRAIN_LENGTH_QUOTIENT)"
    if "0 < t" "0 < shorter" "shorter < len"
  proof -
    have b: "0 < BASE_DRAIN t" using that(1) by (simp add: BASE_DRAIN_def)
    have p: "shorter powr DRAIN_LENGTH_QUOTIENT < len powr DRAIN_LENGTH_QUOTIENT"
      using that(2,3) by (intro powr_less_mono2) (simp_all add: DRAIN_LENGTH_QUOTIENT_def)
    have pos: "0 < len powr DRAIN_LENGTH_QUOTIENT * shorter powr DRAIN_LENGTH_QUOTIENT"
      using that(2) assms by simp
    show ?thesis by (rule divide_strict_left_mono [OF p b pos])
  qed
  have d: "drain_spike (spawnSpike t r a len) = Some (BASE_DRAIN t / (len powr DRAIN_LENGTH_QUOTIENT))"
    using assms by (simp add: spawnSpike_def pow_js_def div_js_def DRAIN_LENGTH_QUOTIENT_def)
  have d': "0 < shorter \<Longrightarrow> drain_spike (spawnSpike t r' a' shorter)
      = Some (BASE_DRAIN t / (shorter powr DRAIN_LENGTH_QUOTIENT))"
    by (simp add: spawnSpike_def pow_js_def div_js_def DRAIN_LENGTH_QUOTIENT_def)
  show ?thesis
    using mono by (simp add: d d' BASE_DRAIN_def DRAIN_LENGTH_QUOTIENT_def)
qed

theorem spawnSpike_drain_witness:
  "drain_spike (spawnSpike 30 10 0 1) = Some 25000
   \<and> the (drain_spike (spawnSpike 30 10 0 2)) < the (drain_spike (spawnSpike 30 10 (1/4) 1))"
proof -
  have a: "drain_spike (spawnSpike 30 10 0 1) = Some 25000"
    using spawnSpike_drain [where len = 1 and t = 30 and r = 10 and a = 0] by (simp add: BASE_DRAIN_def)
  have h: "(0::real) < 2" by simp
  have "(0::real) < 30 \<and> (0::real) < 1 \<and> (1::real) < 2 \<longrightarrow>
      the (drain_spike (spawnSpike 30 10 0 2)) < the (drain_spike (spawnSpike 30 10 (1/4) 1))"
    using spawnSpike_drain [where len = 2 and t = 30 and r = 10 and a = 0 and shorter = 1
        and r' = 10 and a' = "1/4", OF h] by fast
  then have b: "the (drain_spike (spawnSpike 30 10 0 2)) < the (drain_spike (spawnSpike 30 10 (1/4) 1))"
    by simp
  show ?thesis using a b by simp
qed

lemma spawnSpike_old_drain: "drain_spike (spawnSpike_old r a len) = Some 320"
  by (simp add: spawnSpike_old_def SPIKE_DRAIN_def)

subsection \<open>Collision\<close>

lemma sqrt_900: "sqrt 900 = 30"
  by (rule real_sqrt_unique) simp_all
lemma sqrt_100: "sqrt 100 = 10"
  by (rule real_sqrt_unique) simp_all

text \<open>
  C7. Two bodies of mass 314 meet head-on along the x axis at speed 10, the first heading
  east (angle 0) from (35, 50), the second heading west (angle 1/2) from (65, 50).
  \<^verbatim>\<open>collide\<close> gives the first body the velocity vector \<open>(-10, 0)\<close>, and \<^verbatim>\<open>mergeVector\<close>
  turns it into angle 0: its two quadrant corrections need \<open>y < 0\<close> or \<open>y > 0\<close>. Both
  bodies end heading east; the first has not taken the angle 1/2 of the second.
\<close>

theorem collide_head_on_east_west:
  "collide \<lparr> core_size = 314, angle_col = 0, speed_col = 10, x_col = 35, y_col = 50 \<rparr>
           \<lparr> core_size = 314, angle_col = 1/2, speed_col = 10, x_col = 65, y_col = 50 \<rparr>
     = Some (\<lparr> core_size = 314, angle_col = 0, speed_col = 10, x_col = 35, y_col = 50 \<rparr>,
             \<lparr> core_size = 314, angle_col = 0, speed_col = 10, x_col = 65, y_col = 50 \<rparr>)"
  by (simp add: collide_def breakVector_def getRadians_def mergeVector_def normalAfter_def
      sqrt_900 sqrt_100 Let_def)

subsection \<open>Replicating a parent\<close>








lemma sample_toBytes_dna: "sample_toBytes ''f00f'' = [240, 15]"
  by (simp add: hexValue_def digit36_def)

















lemma those_map_Some:
  assumes "\<And>x. x \<in> set xs \<Longrightarrow> \<exists>y. f x = Some y"
  shows "\<exists>ys. those (map f xs) = Some ys"
  using assms
proof (induction xs)
  case Nil
  then show ?case by simp
next
  case (Cons x xs)
  obtain y where y: "f x = Some y" using Cons.prems [of x] by auto
  obtain ys where ys: "those (map f xs) = Some ys" using Cons.IH Cons.prems by auto
  show ?case by (simp add: y ys)
qed

lemma initBody_returns:
  assumes "0 < bitsPerMass gcfg" and "bitsPerSpikeLength gcfg \<noteq> 0"
  shows "\<exists>b store1. initBody ext gcfg vcfg dyn t dna store = Some (b, store1)
           \<and> minMass dyn \<le> mass_body b"
proof -
  let ?cmds = "readGenome (rgbToHue ext) gcfg dna"
  define sz where "sz = \<lfloor>real (countTypeBits 0xF0 (toGenes dna)) / bitsPerMass gcfg\<rfloor>"
  have s: "size_cmd ?cmds = Some sz"
    using assms(1) by (simp add: readGenome_def floorDiv_def sz_def Let_def)
  have "0 \<le> real (countTypeBits 0xF0 (toGenes dna)) / bitsPerMass gcfg"
    using assms(1) by simp
  then have nn: "0 \<le> sz" by (simp add: sz_def)
  have "\<exists>y. map_option (\<lambda>l. (angle_cmd c, real_of_int l)) (length_cmd c) = Some y"
    if "c \<in> set (spikes_cmd ?cmds)" for c
    using that assms(2) by (auto simp: readGenome_def readSpikeGene_def floorDiv_def Let_def)
  then have "\<exists>ys. those (map (\<lambda>c. map_option (\<lambda>l. (angle_cmd c, real_of_int l)) (length_cmd c))
                 (spikes_cmd ?cmds)) = Some ys"
    by (rule those_map_Some)
  then obtain cmds where c: "commandLengths (spikes_cmd ?cmds) = Some cmds"
    unfolding commandLengths_def by (rule exE)
  show ?thesis
    using nn by (simp add: initBody_def s c Let_def)
qed

text \<open>
  \<^verbatim>\<open>replicateParent\<close> returns a child whenever the repeat stages of \<^verbatim>\<open>replicateGenome\<close>
  end (here: repeat chances that are not positive), the two bit ratios make the size and
  the spike lengths numbers, and the least mass is positive.
\<close>

lemma replicateParent_returns:
  assumes "chanceRepeatByte gcfg \<le> 0" and "chanceRepeatGene gcfg \<le> 0"
    and "0 < bitsPerMass gcfg" and "bitsPerSpikeLength gcfg \<noteq> 0" and "0 < minMass dyn"
  shows "\<exists>child store' seed'.
           replicateParent ext gcfg vcfg dyn t store parent ang seed = Some (child, store', seed')"
proof -
  obtain dna s1 where g: "replicateGenome (chunkBy ext) gcfg (toBytes ext (dna_body parent)) seed
      = Some (dna, s1)"
    using replicateGenome_returns [OF assms(1,2)] by (metis surj_pair)
  obtain b store1 where b: "initBody ext gcfg vcfg dyn t dna store = Some (b, store1)"
      and m: "minMass dyn \<le> mass_body b"
    using initBody_returns [OF assms(3,4)] by blast
  have m0: "mass_body b \<noteq> 0" using m assms(5) by simp
  obtain bonus s2 where r: "randInt 0 (maxSpawningEnergy dyn / mass_body b) s1 = (bonus, s2)"
    by (metis surj_pair)
  show ?thesis
    by (simp add: replicateParent_def g b m0 r Let_def)
qed





end
